theory Spec2Isabelle
  imports Complex_Main "HOL-Library.Sublist"
begin

section \<open>JavaScript values used by the routes\<close>

text \<open>
  A JavaScript \<^verbatim>\<open>number\<close> is modelled as a rational: the numbers of an OCR response
  arrive as JSON, which has neither NaN nor an infinity, and the arithmetic of the routes
  (one subtraction and one division per coordinate) is taken exactly, without the rounding
  of IEEE doubles.  A \<^verbatim>\<open>string\<close> is a list of characters, \<^verbatim>\<open>null\<close> and
  \<^verbatim>\<open>undefined\<close> are \<open>None\<close>, a thrown exception is the \<open>Inl\<close> of a sum.
\<close>

type_synonym js_number = rat

datatype js_error = JsError (message: string) (details: string)

text \<open>\<^verbatim>\<open>v || d\<close> on a number: zero and a missing value are falsy.\<close>

definition num_or :: "js_number option \<Rightarrow> js_number \<Rightarrow> js_number" where
  "num_or v d = (case v of None \<Rightarrow> d | Some n \<Rightarrow> if n = 0 then d else n)"

text \<open>\<^verbatim>\<open>v || d\<close> on a string: the empty string and a missing value are falsy.\<close>

definition str_or :: "string option \<Rightarrow> string \<Rightarrow> string" where
  "str_or v d = (case v of None \<Rightarrow> d | Some s \<Rightarrow> if s = [] then d else s)"

subsection \<open>String.prototype.split, Array.prototype.join, String.prototype.replace\<close>

text \<open>
  \<^verbatim>\<open>s.split(sep)\<close> with a non-empty separator scans from the left and cuts at each match,
  resuming the scan behind the match.
\<close>

fun split_ne :: "string \<Rightarrow> string \<Rightarrow> string list" where
  "split_ne sep [] = [[]]"
| "split_ne sep (c # cs) =
     (if sep \<noteq> [] \<and> prefix sep (c # cs)
      then [] # split_ne sep (drop (length sep - 1) cs)
      else (case split_ne sep cs of [] \<Rightarrow> [[c]] | p # ps \<Rightarrow> (c # p) # ps))"

text \<open>With the empty separator the string is cut into its code units.\<close>

definition split_str :: "string \<Rightarrow> string \<Rightarrow> string list" where
  "split_str sep s = (if sep = [] then map (\<lambda>c. [c]) s else split_ne sep s)"

fun join_str :: "string \<Rightarrow> string list \<Rightarrow> string" where
  "join_str sep [] = []"
| "join_str sep [p] = p"
| "join_str sep (p # q # ps) = p @ sep @ join_str sep (q # ps)"

text \<open>\<^verbatim>\<open>s.split(pat).join(rep)\<close>, the replacement idiom of the OCR route.\<close>

definition split_join :: "string \<Rightarrow> string \<Rightarrow> string \<Rightarrow> string" where
  "split_join pat rep s = join_str rep (split_str pat s)"

text \<open>
  \<^verbatim>\<open>s.replace(pat, rep)\<close> with a string pattern replaces the first match only (the
  replacement strings of the routes contain no \<^verbatim>\<open>$\<close>, so none of the special
  replacement patterns applies).
\<close>

fun replace_first :: "string \<Rightarrow> string \<Rightarrow> string \<Rightarrow> string" where
  "replace_first pat rep [] = (if pat = [] then rep else [])"
| "replace_first pat rep (c # cs) =
     (if prefix pat (c # cs) then rep @ drop (length pat) (c # cs)
      else c # replace_first pat rep cs)"

text \<open>\<^verbatim>\<open>xs[i]\<close> and \<^verbatim>\<open>xs.pop()\<close>: \<^verbatim>\<open>undefined\<close> out of range.\<close>

definition nth_opt :: "'a list \<Rightarrow> nat \<Rightarrow> 'a option" where
  "nth_opt xs i = (if i < length xs then Some (xs ! i) else None)"

definition pop_opt :: "'a list \<Rightarrow> 'a option" where
  "pop_opt xs = (if xs = [] then None else Some (last xs))"

subsection \<open>Plain objects used as dictionaries\<close>

text \<open>
  A \<^verbatim>\<open>Record<string, T>\<close> is an association list in insertion order with unique keys:
  the own properties of the object.  \<^verbatim>\<open>Object.entries\<close> enumerates the keys that are
  array indices first, in ascending numeric order, and then the other keys in insertion
  order.
\<close>

type_synonym 'v js_object = "(string \<times> 'v) list"

definition object_get :: "'v js_object \<Rightarrow> string \<Rightarrow> 'v option" where
  "object_get obj k = map_of obj k"

fun object_set :: "'v js_object \<Rightarrow> string \<Rightarrow> 'v \<Rightarrow> 'v js_object" where
  "object_set [] k v = [(k, v)]"
| "object_set ((k', v') # obj) k v =
     (if k' = k then (k, v) # obj else (k', v') # object_set obj k v)"

definition is_digit :: "char \<Rightarrow> bool" where
  "is_digit c = (48 \<le> (of_char c :: nat) \<and> (of_char c :: nat) \<le> 57)"

definition array_index :: "string \<Rightarrow> nat option" where
  "array_index k =
     (if k \<noteq> [] \<and> list_all is_digit k \<and> (k = ''0'' \<or> hd k \<noteq> CHR ''0'')
      then (let n = foldl (\<lambda>a c. 10 * a + (of_char c - 48)) 0 k
            in if n < 4294967295 then Some n else None)
      else None)"

definition index_key :: "string \<times> 'v \<Rightarrow> nat" where
  "index_key e = (case array_index (fst e) of Some n \<Rightarrow> n | None \<Rightarrow> 0)"

definition object_entries :: "'v js_object \<Rightarrow> (string \<times> 'v) list" where
  "object_entries obj =
     sort_key index_key (filter (\<lambda>e. array_index (fst e) \<noteq> None) obj)
     @ filter (\<lambda>e. array_index (fst e) = None) obj"

definition object_values :: "'v js_object \<Rightarrow> 'v list" where
  "object_values obj = map snd (object_entries obj)"

text \<open>
  \<^verbatim>\<open>obj[k] = v\<close> for a string \<open>v\<close> on an object made by \<^verbatim>\<open>{}\<close>: the key
  \<^verbatim>\<open>__proto__\<close> is the accessor of the prototype, whose setter ignores a value that is
  neither an object nor \<^verbatim>\<open>null\<close>, so that no property is made; every other key
  becomes, or stays, an own property.
\<close>

definition assign_string :: "string js_object \<Rightarrow> string \<Rightarrow> string \<Rightarrow> string js_object" where
  "assign_string obj k v = (if k = ''__proto__'' then obj else object_set obj k v)"

section \<open>The asset store\<close>

record SavedImageAsset =
  asset_id :: string
  originalId :: string
  filePath :: "string option"
  publicPath :: string
  mimeType :: string

text \<open>
  The file system, the blob storage, the clock and the UUID generator are outside the
  program.  Their answers are the fields of an environment; a call site tells the calls of
  one request apart (the store is called once per page, and once for the mock response).
\<close>

datatype call_site = PageCall nat | MockCall

datatype file_content = Base64Bytes string | SessionInfoJson string nat

record store_env =
  isVercel :: bool
  cwd :: string
  pathJoin :: "string list \<Rightarrow> string"
  pathBasename :: "string \<Rightarrow> string"
  sessionUuid :: "call_site \<Rightarrow> string"
  uuidv4 :: "call_site \<Rightarrow> string \<Rightarrow> string"
  existsSync :: "call_site \<Rightarrow> string \<Rightarrow> bool"
  mkdirSync :: "call_site \<Rightarrow> string \<Rightarrow> js_error option"
  writeFileSync :: "call_site \<Rightarrow> string \<Rightarrow> file_content \<Rightarrow> js_error option"
  blobPut :: "call_site \<Rightarrow> string \<Rightarrow> string \<Rightarrow> string \<Rightarrow> js_error + string"

definition ASSET_DIR :: "'a store_env_scheme \<Rightarrow> string" where
  "ASSET_DIR env = pathJoin env [cwd env, ''public'', ''assets'', ''ocr-images'']"

definition ensureDirectoryExists ::
    "'a store_env_scheme \<Rightarrow> call_site \<Rightarrow> string \<Rightarrow> js_error option" where
  "ensureDirectoryExists env cs directory =
     (if \<not> existsSync env cs directory then mkdirSync env cs directory else None)"

definition is_alnum :: "char \<Rightarrow> bool" where
  "is_alnum c = (let n = (of_char c :: nat) in
     (97 \<le> n \<and> n \<le> 122) \<or> (65 \<le> n \<and> n \<le> 90) \<or> (48 \<le> n \<and> n \<le> 57))"

definition is_subtype_char :: "char \<Rightarrow> bool" where
  "is_subtype_char c = (is_alnum c \<or> c = CHR ''-'' \<or> c = CHR ''.'' \<or> c = CHR ''+'')"

text \<open>
  The regular expression \<^verbatim>\<open>^data:([a-zA-Z0-9]+\/[a-zA-Z0-9-.+]+);base64,\<close>: each
  character class is followed by a character outside it, so the greedy runs are the only
  way to match.
\<close>

definition getMimeTypeFromBase64 :: "string \<Rightarrow> string" where
  "getMimeTypeFromBase64 base64Data =
     (if prefix ''data:'' base64Data then
        (let r1 = drop 5 base64Data;
             t = takeWhile is_alnum r1;
             r2 = dropWhile is_alnum r1
         in if t \<noteq> [] \<and> prefix ''/'' r2 then
              (let r3 = drop 1 r2;
                   u = takeWhile is_subtype_char r3;
                   r4 = dropWhile is_subtype_char r3
               in if u \<noteq> [] \<and> prefix '';base64,'' r4 then t @ ''/'' @ u
                  else ''image/png'')
            else ''image/png'')
      else ''image/png'')"

definition is_line_terminator :: "char \<Rightarrow> bool" where
  "is_line_terminator c = (c = CHR 0x0A \<or> c = CHR 0x0D)"

text \<open>The regular expression \<^verbatim>\<open>^data:image\/[a-zA-Z0-9-.+]+;base64,(.+)$\<close>.\<close>

definition extractBase64Data :: "string \<Rightarrow> string" where
  "extractBase64Data base64Data =
     (if prefix ''data:image/'' base64Data then
        (let r1 = drop 11 base64Data;
             u = takeWhile is_subtype_char r1;
             r2 = dropWhile is_subtype_char r1;
             payload = drop 8 r2
         in if u \<noteq> [] \<and> prefix '';base64,'' r2 \<and> payload \<noteq> []
               \<and> \<not> list_ex is_line_terminator payload
            then payload else base64Data)
      else base64Data)"

definition storeImageToFileSystem ::
    "'a store_env_scheme \<Rightarrow> call_site \<Rightarrow> string \<Rightarrow> string \<Rightarrow> string
      \<Rightarrow> js_error + SavedImageAsset" where
  "storeImageToFileSystem env cs imageId base64Data sessionDir =
     (let mimeType = getMimeTypeFromBase64 base64Data;
          extension = str_or (nth_opt (split_str ''/'' mimeType) 1) ''png'';
          fileName = imageId @ ''-'' @ take 8 (uuidv4 env cs imageId) @ ''.'' @ extension;
          filePath = pathJoin env [sessionDir, fileName];
          publicPath = ''/assets/ocr-images/'' @ pathBasename env sessionDir @ ''/'' @ fileName;
          base64Content = extractBase64Data base64Data
      in case writeFileSync env cs filePath (Base64Bytes base64Content) of
           Some error \<Rightarrow> Inl error
         | None \<Rightarrow> Inr \<lparr> asset_id = hd (split_str ''.'' fileName),
                          originalId = imageId,
                          filePath = Some filePath,
                          publicPath = publicPath,
                          mimeType = mimeType \<rparr>)"

definition storeImageToBlob ::
    "'a store_env_scheme \<Rightarrow> call_site \<Rightarrow> string \<Rightarrow> string \<Rightarrow> string
      \<Rightarrow> js_error + SavedImageAsset" where
  "storeImageToBlob env cs imageId base64Data sessionId =
     (let mimeType = getMimeTypeFromBase64 base64Data;
          extension = str_or (nth_opt (split_str ''/'' mimeType) 1) ''png'';
          fileName = ''ocr-images/'' @ sessionId @ ''/'' @ imageId @ ''-''
                       @ take 8 (uuidv4 env cs imageId) @ ''.'' @ extension;
          base64Content = extractBase64Data base64Data
      in case blobPut env cs fileName base64Content mimeType of
           Inl error \<Rightarrow> Inl error
         | Inr url \<Rightarrow> Inr \<lparr> asset_id =
                             str_or (map_option (\<lambda>l. hd (split_str ''.'' l))
                                       (pop_opt (split_str ''/'' fileName))) imageId,
                           originalId = imageId,
                           filePath = None,
                           publicPath = url,
                           mimeType = mimeType \<rparr>)"

text \<open>
  The loop body of \<^verbatim>\<open>storeImagesFromMap\<close>: the \<^verbatim>\<open>try\<close> around one image swallows
  its error, and the image gets no entry.
\<close>

definition storeOne ::
    "(string \<Rightarrow> string \<Rightarrow> js_error + SavedImageAsset)
      \<Rightarrow> SavedImageAsset js_object \<Rightarrow> string \<times> string \<Rightarrow> SavedImageAsset js_object" where
  "storeOne store savedImages entry =
     (case store (fst entry) (snd entry) of
        Inr asset \<Rightarrow> object_set savedImages (fst entry) asset
      | Inl error \<Rightarrow> savedImages)"

definition storeImagesFromMap ::
    "'a store_env_scheme \<Rightarrow> call_site \<Rightarrow> string js_object \<Rightarrow> string option
      \<Rightarrow> js_error + SavedImageAsset js_object" where
  "storeImagesFromMap env cs imageMap sessionId =
     (let session = str_or sessionId (sessionUuid env cs) in
      if \<not> isVercel env then
        (let sessionDir = pathJoin env [ASSET_DIR env, session] in
         case ensureDirectoryExists env cs sessionDir of
           Some error \<Rightarrow> Inl error
         | None \<Rightarrow>
             (let savedImages =
                    foldl (storeOne (\<lambda>imageId base64Data.
                             storeImageToFileSystem env cs imageId base64Data sessionDir))
                      [] (object_entries imageMap);
                  sessionInfoPath = pathJoin env [sessionDir, ''session-info.json'']
              in case writeFileSync env cs sessionInfoPath
                        (SessionInfoJson session (length (object_entries savedImages))) of
                   Some error \<Rightarrow> Inl error
                 | None \<Rightarrow> Inr savedImages))
      else
        Inr (foldl (storeOne (\<lambda>imageId base64Data.
                      storeImageToBlob env cs imageId base64Data session))
               [] (object_entries imageMap)))"

section \<open>The OCR route: the vendor's response and the document model\<close>

record OCRImageObject =
  ocr_id :: string
  topLeftX :: "js_number option"
  topLeftY :: "js_number option"
  bottomRightX :: "js_number option"
  bottomRightY :: "js_number option"
  imageBase64 :: "string option"

record OCRPageDimensions =
  dpi :: js_number
  height :: js_number
  width :: js_number

record OCRPageObject =
  ocr_index :: js_number
  ocr_markdown :: string
  ocr_images :: "OCRImageObject list"
  ocr_dimensions :: "OCRPageDimensions option"

record OCRUsageInfo =
  pagesProcessed :: js_number
  docSizeBytes :: "js_number option"

record OCRResponse =
  ocr_pages :: "OCRPageObject list"
  ocr_model :: string
  usageInfo :: "OCRUsageInfo option"

record Coordinates =
  coord_x :: js_number
  coord_y :: js_number
  coord_width :: js_number
  coord_height :: js_number

record OriginalCoordinates =
  top_left_x :: js_number
  top_left_y :: js_number
  bottom_right_x :: js_number
  bottom_right_y :: js_number

record ImageRef =
  ref_id :: string
  url :: string
  coordinates :: Coordinates
  originalCoordinates :: OriginalCoordinates

record ProcessedPage =
  index :: js_number
  markdown :: string
  rawMarkdown :: string
  images :: "ImageRef list"
  dimensions :: OCRPageDimensions

record StoredAsset =
  stored_id :: string
  stored_originalId :: string
  stored_publicPath :: string
  stored_mimeType :: string

record Usage =
  pages_processed :: js_number
  doc_size_bytes :: js_number

record Document =
  doc_text :: string
  rawText :: string
  sessionId :: string
  pages :: "ProcessedPage list"
  all_images :: "ImageRef list"
  storedAssets :: "StoredAsset list"
  usage :: Usage
  model :: string
  maxTokens :: "js_number option"

subsection \<open>One page\<close>

definition placeholderPath :: string where
  "placeholderPath = ''/placeholder.svg?height=200&width=300''"

definition dataUrlOf :: "OCRImageObject \<Rightarrow> string" where
  "dataUrlOf img = str_or (imageBase64 img) placeholderPath"

text \<open>
  The callback of \<^verbatim>\<open>page.images.map\<close> does two things: it stores the data URL under
  the image's id in the page's image map, and it returns the image reference.
\<close>

definition buildImageMap :: "OCRImageObject list \<Rightarrow> string js_object" where
  "buildImageMap imgs =
     foldl (\<lambda>imageMap img. assign_string imageMap (ocr_id img) (dataUrlOf img)) [] imgs"

definition pageWidthOf :: "OCRPageObject \<Rightarrow> js_number" where
  "pageWidthOf page = num_or (map_option width (ocr_dimensions page)) 612"

definition pageHeightOf :: "OCRPageObject \<Rightarrow> js_number" where
  "pageHeightOf page = num_or (map_option height (ocr_dimensions page)) 792"

definition imageRefOf :: "OCRPageObject \<Rightarrow> OCRImageObject \<Rightarrow> ImageRef" where
  "imageRefOf page img =
     (let dataUrl = dataUrlOf img;
          topLeftX = num_or (topLeftX img) 0;
          topLeftY = num_or (topLeftY img) 0;
          bottomRightX = num_or (bottomRightX img) 100;
          bottomRightY = num_or (bottomRightY img) 100;
          width = bottomRightX - topLeftX;
          height = bottomRightY - topLeftY;
          pageWidth = pageWidthOf page;
          pageHeight = pageHeightOf page
      in \<lparr> ref_id = ocr_id img,
           url = dataUrl,
           coordinates = \<lparr> coord_x = topLeftX / pageWidth,
                           coord_y = topLeftY / pageHeight,
                           coord_width = width / pageWidth,
                           coord_height = height / pageHeight \<rparr>,
           originalCoordinates = \<lparr> top_left_x = topLeftX,
                                   top_left_y = topLeftY,
                                   bottom_right_x = bottomRightX,
                                   bottom_right_y = bottomRightY \<rparr> \<rparr>)"

definition imagePattern :: "string \<Rightarrow> string" where
  "imagePattern i = ''!['' @ i @ '']('' @ i @ '')''"

definition imageReplacement :: "string \<Rightarrow> string \<Rightarrow> string" where
  "imageReplacement i target = ''!['' @ i @ '']('' @ target @ '')''"

text \<open>\<^verbatim>\<open>savedImages[id]?.publicPath || dataUrl\<close>\<close>

definition linkTarget :: "SavedImageAsset js_object \<Rightarrow> string \<Rightarrow> string \<Rightarrow> string" where
  "linkTarget savedImages i dataUrl =
     str_or (map_option publicPath (object_get savedImages i)) dataUrl"

definition replaceImage ::
    "SavedImageAsset js_object \<Rightarrow> string \<times> string \<Rightarrow> string \<Rightarrow> string" where
  "replaceImage savedImages entry processedMarkdown =
     split_join (imagePattern (fst entry))
       (imageReplacement (fst entry) (linkTarget savedImages (fst entry) (snd entry)))
       processedMarkdown"

definition updateImage :: "SavedImageAsset js_object \<Rightarrow> ImageRef \<Rightarrow> ImageRef" where
  "updateImage savedImages img = img\<lparr> url := linkTarget savedImages (ref_id img) (url img) \<rparr>"

definition defaultDimensions :: OCRPageDimensions where
  "defaultDimensions = \<lparr> dpi = 72, height = 792, width = 612 \<rparr>"

text \<open>
  The body of the callback of \<^verbatim>\<open>ocrResponse.pages.map\<close>, for the page at position
  \<open>k\<close> of the response.
\<close>

definition processPage ::
    "'a store_env_scheme \<Rightarrow> string \<Rightarrow> nat \<Rightarrow> OCRPageObject \<Rightarrow> js_error + ProcessedPage" where
  "processPage env sid k page =
     (let imageMap = buildImageMap (ocr_images page);
          imgs = map (imageRefOf page) (ocr_images page)
      in case storeImagesFromMap env (PageCall k) imageMap (Some sid) of
           Inl error \<Rightarrow> Inl error
         | Inr savedImages \<Rightarrow>
             Inr \<lparr> index = ocr_index page,
                   markdown = fold (replaceImage savedImages) (object_entries imageMap)
                                (ocr_markdown page),
                   rawMarkdown = ocr_markdown page,
                   images = map (updateImage savedImages) imgs,
                   dimensions = (case ocr_dimensions page of
                                   None \<Rightarrow> defaultDimensions | Some d \<Rightarrow> d) \<rparr>)"

subsection \<open>The whole response\<close>

text \<open>\<^verbatim>\<open>Promise.all\<close>: the pages in order, or the error of a page that failed.\<close>

fun all_results :: "('e + 'a) list \<Rightarrow> 'e + 'a list" where
  "all_results [] = Inr []"
| "all_results (r # rs) =
     (case r of
        Inl e \<Rightarrow> Inl e
      | Inr x \<Rightarrow> (case all_results rs of Inl e \<Rightarrow> Inl e | Inr xs \<Rightarrow> Inr (x # xs)))"

definition processPages ::
    "'a store_env_scheme \<Rightarrow> string \<Rightarrow> OCRPageObject list \<Rightarrow> js_error + ProcessedPage list" where
  "processPages env sid ps =
     all_results (map (\<lambda>(k, page). processPage env sid k page) (enumerate 0 ps))"

definition assetOfImage :: "ImageRef \<Rightarrow> StoredAsset option" where
  "assetOfImage img =
     (let publicPath = url img in
      if publicPath = [] then None
      else
        (let fileName = str_or (pop_opt (split_str ''/'' publicPath)) [];
             i = str_or (nth_opt (split_str ''.'' fileName) 0) (ref_id img);
             extension = str_or (pop_opt (split_str ''.'' fileName)) ''png'';
             mimeType = ''image/'' @ extension
         in Some \<lparr> stored_id = i,
                    stored_originalId = ref_id img,
                    stored_publicPath = publicPath,
                    stored_mimeType = mimeType \<rparr>))"

text \<open>\<^verbatim>\<open>self.findIndex(p)\<close>: the first index whose element satisfies \<open>p\<close>, or \<open>-1\<close>.\<close>

fun findIndex :: "('a \<Rightarrow> bool) \<Rightarrow> 'a list \<Rightarrow> int" where
  "findIndex p [] = -1"
| "findIndex p (x # xs) =
     (if p x then 0 else (let r = findIndex p xs in if r < 0 then -1 else r + 1))"

text \<open>
  \<^verbatim>\<open>.filter(Boolean).filter((asset, index, self) => index === self.findIndex((a) => a?.id === asset?.id))\<close>
\<close>

definition dedupAssets :: "StoredAsset option list \<Rightarrow> StoredAsset list" where
  "dedupAssets allStoredAssets =
     (let self = map the (filter (\<lambda>a. a \<noteq> None) allStoredAssets)
      in map snd (filter (\<lambda>(i, asset).
                     int i = findIndex (\<lambda>a. stored_id a = stored_id asset) self)
                   (enumerate 0 self)))"

definition usageOf :: "OCRResponse \<Rightarrow> Usage" where
  "usageOf ocrResponse =
     (let info = (case usageInfo ocrResponse of
                    Some u \<Rightarrow> u
                  | None \<Rightarrow> \<lparr> pagesProcessed = of_nat (length (ocr_pages ocrResponse)),
                               docSizeBytes = Some 0 \<rparr>)
      in \<lparr> pages_processed = num_or (Some (pagesProcessed info)) 0,
           doc_size_bytes = num_or (docSizeBytes info) 0 \<rparr>)"

definition processOcrResponse ::
    "'a store_env_scheme \<Rightarrow> OCRResponse \<Rightarrow> string \<Rightarrow> js_error + Document" where
  "processOcrResponse env ocrResponse sid =
     (case processPages env sid (ocr_pages ocrResponse) of
        Inl error \<Rightarrow> Inl error
      | Inr processedPages \<Rightarrow>
          Inr \<lparr> doc_text = join_str [CHR 0x0A, CHR 0x0A] (map markdown processedPages),
                rawText = join_str [CHR 0x0A, CHR 0x0A] (map rawMarkdown processedPages),
                sessionId = sid,
                pages = processedPages,
                all_images = concat (map images processedPages),
                storedAssets =
                  dedupAssets (map assetOfImage (concat (map images processedPages))),
                usage = usageOf ocrResponse,
                model = str_or (Some (ocr_model ocrResponse)) ''mistral-ocr-latest'',
                maxTokens = None \<rparr>)"

subsection \<open>The mock response\<close>

datatype event =
    MistralUpload
  | MistralGetSignedUrl
  | MistralOcr
  | FetchImage string
  | AssetStore call_site
  | ConsoleError string js_error

text \<open>
  The events are the calls of a request to the services outside the program, and its
  \<^verbatim>\<open>console.error\<close> lines in the handler (the \<^verbatim>\<open>console.log\<close> lines are left out).
\<close>

record js_file =
  file_name :: string
  file_type :: string
  file_bytes :: string

record OCRRequest =
  req_model :: string
  documentUrl :: string
  documentName :: string
  includeImageBase64 :: bool

record handler_env = store_env +
  requestUuid :: string
  newMistral :: "js_error option"
  arrayBuffer :: "js_file \<Rightarrow> js_error option"
  filesUpload :: "js_file \<Rightarrow> js_error + string"
  filesGetSignedUrl :: "string \<Rightarrow> js_error + string"
  ocrProcess :: "OCRRequest \<Rightarrow> js_error + OCRResponse"
  fetchBase64 :: "string \<Rightarrow> js_error + string"

text \<open>
  \<open>fetchBase64\<close> stands for \<^verbatim>\<open>fetch(url)\<close>, \<^verbatim>\<open>arrayBuffer()\<close> and the base64
  encoding of the body, together.
\<close>

definition pmiGraphUrl :: string where
  "pmiGraphUrl = ''https://hebbkx1anhila5yf.public.blob.vercel-storage.com/''
     @ ''img-1.jpeg-0afae6fb-OLkYscR0PxBzexzNs6sQJ6v8H4dKv2.jpeg''"

text \<open>
  The canned markdown: a title with the file name, the text before the image, the image,
  and the text behind it.
\<close>

definition sampleIntro :: string where
  "sampleIntro =
     [CHR 0x0A]
     @ [CHR 0x0A]
     @ ''## Economic Analysis - December 2023''
     @ [CHR 0x0A]
     @ [CHR 0x0A]
     @ ''Rising workforce numbers at a time of falling new orders meant that firms contin''
     @ ''ued to work through outstanding business in the final month of the year. Moreove''
     @ ''r, the pace of depletion was sharp and the steepest since June 2023.''
     @ [CHR 0x0A]
     @ [CHR 0x0A]
     @ ''While firms increased employment, the drop in new orders resulted in reductions ''
     @ ''in purchasing activity, as well as stocks of inputs and finished goods. Input bu''
     @ ''ying and stocks of purchases both decreased more quickly than in November, while''
     @ '' the reduction in stocks of finished goods was the first in six months.''
     @ [CHR 0x0A]
     @ [CHR 0x0A]"

definition sampleOutro :: string where
  "sampleOutro =
     [CHR 0x0A]
     @ [CHR 0x0A]
     @ ''## Price Trends''
     @ [CHR 0x0A]
     @ [CHR 0x0A]
     @ ''The rate of input cost inflation accelerated sharply at the end of the year, wit''
     @ ''h the latest increase the fastest since August. The rise was broadly in line wit''
     @ ''h the pre-pandemic average. Higher supplier charges and rising costs for raw mat''
     @ ''erials were reported by panellists. ''
     @ [CHR 0x0A]
     @ [CHR 0x0A]
     @ ''In turn, firms increased their output prices, with the pace of inflation quicken''
     @ ''ing to a three-month high. Charges have risen continuously since June 2020.''
     @ [CHR 0x0A]
     @ [CHR 0x0A]
     @ ''Meanwhile, suppliers''
     @ [CHR 0x27]
     @ '' delivery times lengthened to the greatest extent since October 2022, linked to ''
     @ ''staff shortages at suppliers and freight delays.''"

definition sampleMarkdown :: "string \<Rightarrow> string" where
  "sampleMarkdown fileName =
     ''# PMI Economic Report: '' @ fileName @ sampleIntro
     @ ''![pmi_graph]('' @ pmiGraphUrl @ '')'' @ sampleOutro"

definition mockImage :: "SavedImageAsset js_object \<Rightarrow> ImageRef" where
  "mockImage savedImages =
     \<lparr> ref_id = ''pmi_graph'',
       url = linkTarget savedImages ''pmi_graph'' pmiGraphUrl,
       coordinates = \<lparr> coord_x = 8 / 100, coord_y = 38 / 100,
                       coord_width = 82 / 100, coord_height = 25 / 100 \<rparr>,
       originalCoordinates = \<lparr> top_left_x = 50, top_left_y = 300,
                               bottom_right_x = 550, bottom_right_y = 500 \<rparr> \<rparr>"

definition storedAssetOf :: "SavedImageAsset \<Rightarrow> StoredAsset" where
  "storedAssetOf asset =
     \<lparr> stored_id = asset_id asset,
       stored_originalId = originalId asset,
       stored_publicPath = publicPath asset,
       stored_mimeType = mimeType asset \<rparr>"

definition mockDocument :: "string \<Rightarrow> string \<Rightarrow> SavedImageAsset js_object \<Rightarrow> Document" where
  "mockDocument fileName sid savedImages =
     (let rawMarkdown =
            replace_first (''![pmi_graph]('' @ pmiGraphUrl @ '')'') ''![pmi_graph](pmi_graph)''
              (sampleMarkdown fileName)
      in \<lparr> doc_text = sampleMarkdown fileName,
           rawText = rawMarkdown,
           sessionId = sid,
           pages = [\<lparr> index = 0,
                      markdown = sampleMarkdown fileName,
                      rawMarkdown = rawMarkdown,
                      images = [mockImage savedImages],
                      dimensions = \<lparr> dpi = 72, height = 792, width = 612 \<rparr> \<rparr>],
           all_images = [mockImage savedImages],
           storedAssets = map storedAssetOf (object_values savedImages),
           usage = \<lparr> pages_processed = 1, doc_size_bytes = 1024 \<rparr>,
           model = ''mistral-ocr-latest'',
           maxTokens = Some 8000 \<rparr>)"

definition createMockResponse ::
    "'a handler_env_scheme \<Rightarrow> string \<Rightarrow> string \<Rightarrow> (js_error + Document) \<times> event list" where
  "createMockResponse env fileName sid =
     (case fetchBase64 env pmiGraphUrl of
        Inl error \<Rightarrow> (Inl error, [FetchImage pmiGraphUrl])
      | Inr base64Image \<Rightarrow>
          (let dataUrl = ''data:image/jpeg;base64,'' @ base64Image;
               imageMap = object_set [] ''pmi_graph'' dataUrl
           in case storeImagesFromMap env MockCall imageMap (Some sid) of
                Inl error \<Rightarrow> (Inl error, [FetchImage pmiGraphUrl, AssetStore MockCall])
              | Inr savedImages \<Rightarrow>
                  (Inr (mockDocument fileName sid savedImages),
                   [FetchImage pmiGraphUrl, AssetStore MockCall])))"

subsection \<open>The handler of the document-parse endpoint\<close>

datatype form_value = FormFile js_file | FormString string

datatype response_body =
    ErrorBody string
  | FailureBody string string string
  | DocumentBody Document

record response =
  status :: nat
  body :: response_body

definition form_get :: "(string \<times> form_value) list \<Rightarrow> string \<Rightarrow> form_value option" where
  "form_get formData name = map_of formData name"

text \<open>\<^verbatim>\<open>!pdfFile\<close>: a missing entry and the empty string are falsy.\<close>

definition form_falsy :: "form_value option \<Rightarrow> bool" where
  "form_falsy v = (v = None \<or> v = Some (FormString []))"

text \<open>\<^verbatim>\<open>pdfFile.name\<close> inside a template string; a string entry has no such property.\<close>

definition form_name :: "form_value \<Rightarrow> string" where
  "form_name v = (case v of FormFile f \<Rightarrow> file_name f | FormString s \<Rightarrow> ''undefined'')"

definition json_ok :: "Document \<Rightarrow> response" where
  "json_ok doc = \<lparr> status = 200, body = DocumentBody doc \<rparr>"

definition failure :: "js_error \<Rightarrow> response" where
  "failure error =
     \<lparr> status = 500,
       body = FailureBody ''Failed to process PDF'' (message error) (details error) \<rparr>"

definition storeCalls :: "OCRResponse \<Rightarrow> event list" where
  "storeCalls ocrResponse = map (\<lambda>k. AssetStore (PageCall k)) [0..<length (ocr_pages ocrResponse)]"

text \<open>The body of the inner \<^verbatim>\<open>try\<close>.\<close>

definition apiOperations ::
    "'a handler_env_scheme \<Rightarrow> form_value \<Rightarrow> string \<Rightarrow> (js_error + Document) \<times> event list" where
  "apiOperations env pdfFile sid =
     (case newMistral env of
        Some error \<Rightarrow> (Inl error, [])
      | None \<Rightarrow>
     (case pdfFile of
        FormString s \<Rightarrow> (Inl (JsError ''pdfFile.arrayBuffer is not a function'' []), [])
      | FormFile f \<Rightarrow>
     (case arrayBuffer env f of
        Some error \<Rightarrow> (Inl error, [])
      | None \<Rightarrow>
     (case filesUpload env \<lparr> file_name = file_name f, file_type = ''application/pdf'',
                              file_bytes = file_bytes f \<rparr> of
        Inl error \<Rightarrow> (Inl error, [MistralUpload])
      | Inr fileId \<Rightarrow>
     (case filesGetSignedUrl env fileId of
        Inl error \<Rightarrow> (Inl error, [MistralUpload, MistralGetSignedUrl])
      | Inr signedUrl \<Rightarrow>
     (case ocrProcess env \<lparr> req_model = ''mistral-ocr-latest'', documentUrl = signedUrl,
                             documentName = file_name f, includeImageBase64 = True \<rparr> of
        Inl error \<Rightarrow> (Inl error, [MistralUpload, MistralGetSignedUrl, MistralOcr])
      | Inr ocrResponse \<Rightarrow>
          (processOcrResponse env ocrResponse sid,
           [MistralUpload, MistralGetSignedUrl, MistralOcr] @ storeCalls ocrResponse)))))))"

text \<open>The fallback of the inner \<^verbatim>\<open>catch\<close>, and of the sample flag.\<close>

definition respondWithMock ::
    "'a handler_env_scheme \<Rightarrow> form_value \<Rightarrow> string \<Rightarrow> response \<times> event list" where
  "respondWithMock env pdfFile sid =
     (case createMockResponse env (form_name pdfFile) sid of
        (Inr mockResponse, evs) \<Rightarrow> (json_ok mockResponse, evs)
      | (Inl error, evs) \<Rightarrow>
          (failure error, evs @ [ConsoleError ''Error processing PDF:'' error]))"

definition POST ::
    "'a handler_env_scheme \<Rightarrow> js_error + (string \<times> form_value) list \<Rightarrow> response \<times> event list" where
  "POST env request =
     (case request of
        Inl error \<Rightarrow> (failure error, [ConsoleError ''Error processing PDF:'' error])
      | Inr formData \<Rightarrow>
          (let isSample = (form_get formData ''isSample'' = Some (FormString ''true'')) in
           case form_get formData ''pdf'' of
             None \<Rightarrow> (\<lparr> status = 400, body = ErrorBody ''No PDF file provided'' \<rparr>, [])
           | Some pdfFile \<Rightarrow>
               if form_falsy (Some pdfFile)
               then (\<lparr> status = 400, body = ErrorBody ''No PDF file provided'' \<rparr>, [])
               else
                 (let sid = requestUuid env in
                  if isSample then respondWithMock env pdfFile sid
                  else
                    (case apiOperations env pdfFile sid of
                       (Inr processedData, evs) \<Rightarrow> (json_ok processedData, evs)
                     | (Inl apiError, evs) \<Rightarrow>
                         (let (resp, evs') = respondWithMock env pdfFile sid
                          in (resp, evs @ [ConsoleError ''Error in API operations:'' apiError]
                                      @ evs'))))))"

section \<open>The chat route\<close>

record ToolDef =
  description :: string
  parameters :: "string list"
  execute :: "string \<Rightarrow> string"

record 'm StreamTextCall =
  call_model :: string
  system :: string
  call_messages :: "'m list"
  toolCallStreaming :: bool
  tools :: "ToolDef js_object"
  maxSteps :: nat

record 'm ChatBody =
  messages :: "'m list"
  documentContent :: "string option"

text \<open>The template of the system prompt, before and behind \<^verbatim>\<open>${documentContent}\<close>.\<close>

definition systemPrefix :: string where
  "systemPrefix =
     ''You are a helpful assistant that answers questions about the following document ''
     @ ''content. ''
     @ [CHR 0x0A]
     @ ''       Use this content to provide accurate answers:    ''
     @ [CHR 0x0A]
     @ ''       ''
     @ [CHR 0x0A]
     @ ''       ''"

definition systemSuffix :: string where
  "systemSuffix =
     [CHR 0x0A]
     @ ''       ''
     @ [CHR 0x0A]
     @ ''    ''
     @ [CHR 0x0A]
     @ ''       For data visualization:''
     @ [CHR 0x0A]
     @ ''- Proactively apply visualizations whenever possible.''
     @ [CHR 0x0A]
     @ ''- Use ![alt text](/assets/ocr-images/...jpeg)   for image suggestions.''
     @ [CHR 0x0A]
     @ [CHR 0x0A]
     @ ''       ''"

definition systemMessage :: "string option \<Rightarrow> string" where
  "systemMessage docContent =
     (case docContent of
        None \<Rightarrow> ''You are a helpful assistant.''
      | Some content \<Rightarrow>
          if content = [] then ''You are a helpful assistant.''
          else systemPrefix @ content @ systemSuffix)"

definition ExtractSubject :: ToolDef where
  "ExtractSubject =
     \<lparr> description = ''Extracts a subject from the context injected into the system prompt.'',
       parameters = [''subject''],
       execute = (\<lambda>subject. subject) \<rparr>"

text \<open>
  The call of \<^verbatim>\<open>streamText\<close> that the chat handler makes for a request body (the step
  logger \<^verbatim>\<open>onStepFinish\<close> only prints).
\<close>

definition chatPOST :: "'m ChatBody \<Rightarrow> 'm StreamTextCall" where
  "chatPOST req =
     \<lparr> call_model = ''gemini-2.5-flash'',
       system = systemMessage (documentContent req),
       call_messages = messages req,
       toolCallStreaming = True,
       tools = object_set [] ''ExtractSubject'' ExtractSubject,
       maxSteps = 3 \<rparr>"

section \<open>Statements of the specification\<close>

subsection \<open>Normalized coordinates, as the specification words them\<close>

text \<open>
  The specification divides the vendor's corner coordinates by the page's declared
  dimensions, 612 by 792 standing in when the vendor omitted the dimensions.  (The
  definitions are used on pages whose divisor is not zero.)
\<close>

definition claimed_pageWidth :: "OCRPageObject \<Rightarrow> js_number" where
  "claimed_pageWidth page = (case ocr_dimensions page of None \<Rightarrow> 612 | Some d \<Rightarrow> width d)"

definition claimed_pageHeight :: "OCRPageObject \<Rightarrow> js_number" where
  "claimed_pageHeight page = (case ocr_dimensions page of None \<Rightarrow> 792 | Some d \<Rightarrow> height d)"

definition claimed_coordinates ::
    "OCRPageObject \<Rightarrow> js_number \<Rightarrow> js_number \<Rightarrow> js_number \<Rightarrow> js_number \<Rightarrow> Coordinates" where
  "claimed_coordinates page tlx tly brx bry =
     \<lparr> coord_x = tlx / claimed_pageWidth page,
       coord_y = tly / claimed_pageHeight page,
       coord_width = (brx - tlx) / claimed_pageWidth page,
       coord_height = (bry - tly) / claimed_pageHeight page \<rparr>"

subsection \<open>The rewrite of the image references\<close>

text \<open>
  The specification's rewrite, read on the page's markdown: scanning from the left, an
  occurrence of the placeholder of an entry is replaced by the entry's link, and every
  other character is kept.
\<close>

fun claimed_rewrite :: "(string \<times> string) list \<Rightarrow> string \<Rightarrow> string" where
  "claimed_rewrite es [] = []"
| "claimed_rewrite es (c # cs) =
     (case find (\<lambda>e. prefix (imagePattern (fst e)) (c # cs)) es of
        Some e \<Rightarrow> imageReplacement (fst e) (snd e)
                    @ claimed_rewrite es (drop (length (imagePattern (fst e)) - 1) cs)
      | None \<Rightarrow> c # claimed_rewrite es cs)"

text \<open>
  A text is cut at the leftmost, non-overlapping occurrences of a pattern when no
  occurrence starts inside a part that a separator follows, and none lies in the last part.
\<close>

definition leftmost_cut :: "string \<Rightarrow> string list \<Rightarrow> bool" where
  "leftmost_cut pat parts \<longleftrightarrow>
     parts \<noteq> [] \<and> list_all (\<lambda>p. \<not> sublist pat (p @ butlast pat)) (butlast parts)
     \<and> \<not> sublist pat (last parts)"

text \<open>
  One entry after the other: the text so far is cut at the occurrences of the entry's
  placeholder, and put together again with the entry's link in their place.
\<close>

inductive rewritten :: "(string \<times> string) list \<Rightarrow> string \<Rightarrow> string \<Rightarrow> bool" where
  rewritten_Nil: "rewritten [] md md"
| rewritten_Cons:
    "leftmost_cut (imagePattern i) parts
     \<Longrightarrow> rewritten es (join_str (imageReplacement i target) parts) md'
     \<Longrightarrow> rewritten ((i, target) # es) (join_str (imagePattern i) parts) md'"

subsection \<open>Removal of duplicates, keeping the first occurrence\<close>

fun first_occurrences :: "string set \<Rightarrow> StoredAsset list \<Rightarrow> StoredAsset list" where
  "first_occurrences seen [] = []"
| "first_occurrences seen (a # as) =
     (if stored_id a \<in> seen then first_occurrences seen as
      else a # first_occurrences (insert (stored_id a) seen) as)"

subsection \<open>The bookkeeping of the asset store\<close>

text \<open>
  Apart from the single images, a call of the store on the file system makes the session
  directory and writes the session file; on the blob storage it does neither.
\<close>

definition bookkeeping_ok :: "'a store_env_scheme \<Rightarrow> call_site \<Rightarrow> string option \<Rightarrow> bool" where
  "bookkeeping_ok env cs sid \<longleftrightarrow>
     isVercel env \<or>
     (let session = str_or sid (sessionUuid env cs);
          sessionDir = pathJoin env [ASSET_DIR env, session]
      in ensureDirectoryExists env cs sessionDir = None
         \<and> (\<forall>n. writeFileSync env cs (pathJoin env [sessionDir, ''session-info.json''])
                     (SessionInfoJson session n) = None))"

text \<open>The save of one image that the loop of the store attempts, on either storage.\<close>

definition storeImage ::
    "'a store_env_scheme \<Rightarrow> call_site \<Rightarrow> string option \<Rightarrow> string \<Rightarrow> string
      \<Rightarrow> js_error + SavedImageAsset" where
  "storeImage env cs sid imageId base64Data =
     (let session = str_or sid (sessionUuid env cs) in
      if isVercel env then storeImageToBlob env cs imageId base64Data session
      else storeImageToFileSystem env cs imageId base64Data
             (pathJoin env [ASSET_DIR env, session]))"

section \<open>Example inputs\<close>

text \<open>
  A local development environment in which every call succeeds, except the OCR of the
  vendor, which is configured per example.
\<close>

definition ex_first_page :: OCRPageObject where
  "ex_first_page =
     \<lparr> ocr_index = 0,
       ocr_markdown = ''Intro ![img-0.jpeg](img-0.jpeg) end'',
       ocr_images =
         [\<lparr> ocr_id = ''img-0.jpeg'', topLeftX = Some 153, topLeftY = Some 198,
            bottomRightX = Some 459, bottomRightY = Some 594,
            imageBase64 = Some ''data:image/jpeg;base64,AAAA'' \<rparr>],
       ocr_dimensions = Some \<lparr> dpi = 72, height = 792, width = 612 \<rparr> \<rparr>"

definition ex_second_page :: OCRPageObject where
  "ex_second_page =
     \<lparr> ocr_index = 1, ocr_markdown = ''Second page'', ocr_images = [],
       ocr_dimensions = None \<rparr>"

definition ex_response :: OCRResponse where
  "ex_response =
     \<lparr> ocr_pages = [ex_first_page, ex_second_page],
       ocr_model = ''mistral-ocr-latest'',
       usageInfo = Some \<lparr> pagesProcessed = 2, docSizeBytes = Some 1024 \<rparr> \<rparr>"

definition ex_env :: handler_env where
  "ex_env =
     \<lparr> isVercel = False,
       cwd = ''/app'',
       pathJoin = join_str ''/'',
       pathBasename = (\<lambda>p. last (split_str ''/'' p)),
       sessionUuid = (\<lambda>cs. ''5e551040-0000-4000-8000-000000000000''),
       uuidv4 = (\<lambda>cs imageId. ''01234567-89ab-4cde-8f01-23456789abcd''),
       existsSync = (\<lambda>cs directory. False),
       mkdirSync = (\<lambda>cs directory. None),
       writeFileSync = (\<lambda>cs path content. None),
       blobPut = (\<lambda>cs fileName content contentType. Inl (JsError ''No token found'' ''{}'')),
       requestUuid = ''S'',
       newMistral = None,
       arrayBuffer = (\<lambda>f. None),
       filesUpload = (\<lambda>f. Inr ''file-1''),
       filesGetSignedUrl = (\<lambda>fileId. Inr ''https://files.example/signed''),
       ocrProcess = (\<lambda>r. Inr ex_response),
       fetchBase64 = (\<lambda>u. Inr ''AAAA'') \<rparr>"

definition ex_form :: "(string \<times> form_value) list" where
  "ex_form =
     [(''pdf'', FormFile \<lparr> file_name = ''report.pdf'', file_type = ''application/pdf'',
                           file_bytes = ''%PDF-1.7'' \<rparr>)]"

text \<open>The vendor rejects the upload; and, on top of that, the sample image cannot be fetched.\<close>

definition api_down_env :: handler_env where
  "api_down_env = ex_env\<lparr> filesUpload := (\<lambda>f. Inl (JsError ''Service unavailable'' ''{}'')) \<rparr>"

definition offline_env :: handler_env where
  "offline_env = api_down_env\<lparr> fetchBase64 := (\<lambda>u. Inl (JsError ''fetch failed'' ''{}'')) \<rparr>"

text \<open>A serverless deployment without a blob token: every upload of an image throws.\<close>

definition blobless_env :: handler_env where
  "blobless_env = ex_env\<lparr> isVercel := True \<rparr>"

text \<open>A file system on which the files of the image img-1.png cannot be written.\<close>

definition flaky_env :: handler_env where
  "flaky_env =
     ex_env\<lparr> writeFileSync :=
               (\<lambda>cs path content.
                  if sublist ''img-1.png'' path then Some (JsError ''EACCES'' ''{}'') else None) \<rparr>"

text \<open>A page whose image has its four corners at the origin, and no dimensions.\<close>

definition origin_page :: OCRPageObject where
  "origin_page =
     \<lparr> ocr_index = 0,
       ocr_markdown = ''![img-0.jpeg](img-0.jpeg)'',
       ocr_images =
         [\<lparr> ocr_id = ''img-0.jpeg'', topLeftX = Some 0, topLeftY = Some 0,
            bottomRightX = Some 0, bottomRightY = Some 0,
            imageBase64 = Some ''data:image/jpeg;base64,AAAA'' \<rparr>],
       ocr_dimensions = None \<rparr>"

definition origin_response :: OCRResponse where
  "origin_response =
     \<lparr> ocr_pages = [origin_page], ocr_model = ''mistral-ocr-latest'', usageInfo = None \<rparr>"

text \<open>A page whose image came without its base64 payload.\<close>

definition bare_page :: OCRPageObject where
  "bare_page =
     \<lparr> ocr_index = 0,
       ocr_markdown = ''![img-0.jpeg](img-0.jpeg)'',
       ocr_images =
         [\<lparr> ocr_id = ''img-0.jpeg'', topLeftX = Some 50, topLeftY = Some 300,
            bottomRightX = Some 550, bottomRightY = Some 500,
            imageBase64 = None \<rparr>],
       ocr_dimensions = Some \<lparr> dpi = 72, height = 792, width = 612 \<rparr> \<rparr>"

definition bare_response :: OCRResponse where
  "bare_response =
     \<lparr> ocr_pages = [bare_page], ocr_model = ''mistral-ocr-latest'', usageInfo = None \<rparr>"

text \<open>
  A page with two images, the id of the second containing the placeholder of the first;
  its markdown is the placeholder of the second.
\<close>

definition nested_page :: OCRPageObject where
  "nested_page =
     \<lparr> ocr_index = 0,
       ocr_markdown = ''![![x](x)](![x](x))'',
       ocr_images =
         [\<lparr> ocr_id = ''x'', topLeftX = Some 0, topLeftY = Some 0,
            bottomRightX = Some 10, bottomRightY = Some 10,
            imageBase64 = Some ''data:image/png;base64,AAAA'' \<rparr>,
          \<lparr> ocr_id = ''![x](x)'', topLeftX = Some 0, topLeftY = Some 0,
            bottomRightX = Some 10, bottomRightY = Some 10,
            imageBase64 = Some ''data:image/png;base64,AAAA'' \<rparr>],
       ocr_dimensions = None \<rparr>"

text \<open>A page that shows the same image twice.\<close>

definition twice_response :: OCRResponse where
  "twice_response =
     \<lparr> ocr_pages =
         [\<lparr> ocr_index = 0,
            ocr_markdown = ''![i.png](i.png) ![i.png](i.png)'',
            ocr_images =
              [\<lparr> ocr_id = ''i.png'', topLeftX = Some 0, topLeftY = Some 0,
                 bottomRightX = Some 10, bottomRightY = Some 10,
                 imageBase64 = Some ''data:image/png;base64,AAAA'' \<rparr>,
               \<lparr> ocr_id = ''i.png'', topLeftX = Some 20, topLeftY = Some 0,
                 bottomRightX = Some 30, bottomRightY = Some 10,
                 imageBase64 = Some ''data:image/png;base64,AAAA'' \<rparr>],
            ocr_dimensions = None \<rparr>],
       ocr_model = ''mistral-ocr-latest'',
       usageInfo = None \<rparr>"

section \<open>Basic facts about the model\<close>

lemma all_results_Inr: "all_results rs = Inr xs \<Longrightarrow> rs = map Inr xs"
  by (induction rs arbitrary: xs) (auto split: sum.splits)

lemma all_results_returns:
  "(\<And>x. x \<in> set xs \<Longrightarrow> \<exists>y. f x = Inr y) \<Longrightarrow> \<exists>ys. all_results (map f xs) = Inr ys"
proof (induction xs)
  case Nil
  then show ?case by simp
next
  case (Cons x xs)
  from Cons.prems[of x] obtain y where y: "f x = Inr y" by auto
  from Cons.IH Cons.prems obtain ys where "all_results (map f xs) = Inr ys" by auto
  with y show ?case by simp
qed

lemma processPages_Inr:
  assumes "processPages env sid ps = Inr pps"
  shows "length pps = length ps"
    and "i < length ps \<Longrightarrow> processPage env sid i (ps ! i) = Inr (pps ! i)"
proof -
  from assms
  have eq: "map (\<lambda>(k, page). processPage env sid k page) (enumerate 0 ps) = map Inr pps"
    unfolding processPages_def by (rule all_results_Inr)
  from arg_cong[OF eq, of length] show len: "length pps = length ps" by simp
  assume i: "i < length ps"
  from arg_cong[OF eq, of "\<lambda>l. l ! i"] i len
  show "processPage env sid i (ps ! i) = Inr (pps ! i)"
    by (simp add: nth_enumerate_eq)
qed

lemma processPage_Inr:
  assumes "processPage env sid k page = Inr pp"
  obtains savedImages where
    "storeImagesFromMap env (PageCall k) (buildImageMap (ocr_images page)) (Some sid)
       = Inr savedImages"
    "pp = \<lparr> index = ocr_index page,
            markdown = fold (replaceImage savedImages)
                         (object_entries (buildImageMap (ocr_images page))) (ocr_markdown page),
            rawMarkdown = ocr_markdown page,
            images = map (updateImage savedImages) (map (imageRefOf page) (ocr_images page)),
            dimensions = (case ocr_dimensions page of
                            None \<Rightarrow> defaultDimensions | Some d \<Rightarrow> d) \<rparr>"
  using assms unfolding processPage_def Let_def by (auto split: sum.splits)

lemma processOcrResponse_Inr:
  assumes "processOcrResponse env ocrResponse sid = Inr doc"
  obtains processedPages where
    "processPages env sid (ocr_pages ocrResponse) = Inr processedPages"
    "doc = \<lparr> doc_text = join_str [CHR 0x0A, CHR 0x0A] (map markdown processedPages),
             rawText = join_str [CHR 0x0A, CHR 0x0A] (map rawMarkdown processedPages),
             sessionId = sid,
             pages = processedPages,
             all_images = concat (map images processedPages),
             storedAssets =
               dedupAssets (map assetOfImage (concat (map images processedPages))),
             usage = usageOf ocrResponse,
             model = str_or (Some (ocr_model ocrResponse)) ''mistral-ocr-latest'',
             maxTokens = None \<rparr>"
  using assms unfolding processOcrResponse_def by (auto split: sum.splits)

lemma processPage_rawMarkdown:
  "processPage env sid k page = Inr pp \<Longrightarrow> rawMarkdown pp = ocr_markdown page"
  by (erule processPage_Inr) simp

lemma processPages_rawMarkdown:
  assumes "processPages env sid ps = Inr pps"
  shows "map rawMarkdown pps = map ocr_markdown ps"
proof (rule nth_equalityI)
  show "length (map rawMarkdown pps) = length (map ocr_markdown ps)"
    using processPages_Inr(1)[OF assms] by simp
next
  fix i assume "i < length (map rawMarkdown pps)"
  then have i: "i < length ps" using processPages_Inr(1)[OF assms] by simp
  from processPage_rawMarkdown[OF processPages_Inr(2)[OF assms i]] i
    processPages_Inr(1)[OF assms]
  show "map rawMarkdown pps ! i = map ocr_markdown ps ! i" by simp
qed

subsection \<open>When the store and the pipeline return\<close>

lemma storeImagesFromMap_returns:
  "bookkeeping_ok env cs sid
   \<Longrightarrow> \<exists>savedImages. storeImagesFromMap env cs imageMap sid = Inr savedImages"
  unfolding storeImagesFromMap_def bookkeeping_ok_def Let_def by auto

lemma processPage_returns:
  "bookkeeping_ok env (PageCall k) (Some sid) \<Longrightarrow> \<exists>pp. processPage env sid k page = Inr pp"
  using storeImagesFromMap_returns[of env "PageCall k" "Some sid" "buildImageMap (ocr_images page)"]
  unfolding processPage_def Let_def by auto

lemma processOcrResponse_returns:
  assumes "\<And>k. bookkeeping_ok env (PageCall k) (Some sid)"
  shows "\<exists>doc. processOcrResponse env ocrResponse sid = Inr doc"
proof -
  have "\<exists>pps. processPages env sid (ocr_pages ocrResponse) = Inr pps"
    unfolding processPages_def
    by (rule all_results_returns) (auto simp: processPage_returns[OF assms])
  then show ?thesis unfolding processOcrResponse_def by auto
qed

lemma ex_env_bookkeeping: "bookkeeping_ok ex_env cs sid"
  by (simp add: bookkeeping_ok_def ex_env_def ensureDirectoryExists_def)

section \<open>The raw markdown and the text fields of the document\<close>

text \<open>
  Claim C7.  Whenever the normalization returns a document, the raw markdown of its pages
  is, page by page, the markdown string of the vendor's page, unchanged.
\<close>

theorem rawMarkdown_is_vendor_markdown:
  assumes "processOcrResponse env ocrResponse sid = Inr doc"
  shows "map rawMarkdown (pages doc) = map ocr_markdown (ocr_pages ocrResponse)"
proof -
  from assms obtain pps where "processPages env sid (ocr_pages ocrResponse) = Inr pps"
    and "pages doc = pps" by (auto elim!: processOcrResponse_Inr)
  then show ?thesis by (simp add: processPages_rawMarkdown)
qed

theorem rawMarkdown_is_vendor_markdown_witness:
  "\<exists>doc. processOcrResponse ex_env ex_response ''S'' = Inr doc
     \<and> map rawMarkdown (pages doc) = [''Intro ![img-0.jpeg](img-0.jpeg) end'', ''Second page'']"
proof -
  from processOcrResponse_returns[where env = ex_env and ocrResponse = ex_response
      and sid = "''S''", OF ex_env_bookkeeping]
  obtain doc where doc: "processOcrResponse ex_env ex_response ''S'' = Inr doc" by auto
  from rawMarkdown_is_vendor_markdown[OF doc] doc show ?thesis
    by (auto simp: ex_response_def ex_first_page_def ex_second_page_def)
qed

text \<open>
  Claim C5.  The text of the document is the processed markdown of its pages, joined in
  page order with a blank line, and the raw text is the markdown of the vendor's pages
  joined in the same way; the page at position \<open>i\<close> of the document is the vendor's page
  at position \<open>i\<close>, processed.
\<close>

theorem document_text_fields:
  assumes "processOcrResponse env ocrResponse sid = Inr doc"
  shows "doc_text doc = join_str [CHR 0x0A, CHR 0x0A] (map markdown (pages doc))
       \<and> rawText doc = join_str [CHR 0x0A, CHR 0x0A] (map ocr_markdown (ocr_pages ocrResponse))
       \<and> length (pages doc) = length (ocr_pages ocrResponse)
       \<and> (\<forall>i < length (ocr_pages ocrResponse).
             processPage env sid i (ocr_pages ocrResponse ! i) = Inr (pages doc ! i))"
proof -
  from assms obtain pps where pps: "processPages env sid (ocr_pages ocrResponse) = Inr pps"
    and doc: "pages doc = pps" "doc_text doc = join_str [CHR 0x0A, CHR 0x0A] (map markdown pps)"
      "rawText doc = join_str [CHR 0x0A, CHR 0x0A] (map rawMarkdown pps)"
    by (auto elim!: processOcrResponse_Inr)
  show ?thesis using doc processPages_rawMarkdown[OF pps] processPages_Inr[OF pps] by simp
qed

subsection \<open>The example response, evaluated\<close>

lemmas store_eval =
  storeImagesFromMap_def storeOne_def storeImageToFileSystem_def storeImageToBlob_def
  ensureDirectoryExists_def ASSET_DIR_def getMimeTypeFromBase64_def extractBase64Data_def
  split_str_def str_or_def nth_opt_def pop_opt_def object_entries_def object_get_def
  array_index_def is_digit_def is_alnum_def is_subtype_char_def is_line_terminator_def
  index_key_def Let_def

lemmas page_eval =
  processPage_def buildImageMap_def assign_string_def dataUrlOf_def imageRefOf_def pageWidthOf_def
  pageHeightOf_def num_or_def replaceImage_def split_join_def imagePattern_def
  imageReplacement_def linkTarget_def updateImage_def defaultDimensions_def
  placeholderPath_def

lemma ex_store_page0:
  "storeImagesFromMap ex_env (PageCall 0)
     [(''img-0.jpeg'', ''data:image/jpeg;base64,AAAA'')] (Some ''S'')
   = Inr [(''img-0.jpeg'',
           \<lparr> asset_id = ''img-0'', originalId = ''img-0.jpeg'',
             filePath = Some ''/app/public/assets/ocr-images/S/img-0.jpeg-01234567.jpeg'',
             publicPath = ''/assets/ocr-images/S/img-0.jpeg-01234567.jpeg'',
             mimeType = ''image/jpeg'' \<rparr>)]"
  by (simp add: store_eval ex_env_def)

lemma ex_store_empty: "storeImagesFromMap ex_env cs [] (Some ''S'') = Inr []"
  by (simp add: store_eval ex_env_def)

lemma ex_page0:
  "processPage ex_env ''S'' 0 ex_first_page
   = Inr \<lparr> index = 0,
           markdown = ''Intro ![img-0.jpeg](/assets/ocr-images/S/img-0.jpeg-01234567.jpeg) end'',
           rawMarkdown = ''Intro ![img-0.jpeg](img-0.jpeg) end'',
           images =
             [\<lparr> ref_id = ''img-0.jpeg'',
                url = ''/assets/ocr-images/S/img-0.jpeg-01234567.jpeg'',
                coordinates = \<lparr> coord_x = 1 / 4, coord_y = 1 / 4,
                                coord_width = 1 / 2, coord_height = 1 / 2 \<rparr>,
                originalCoordinates = \<lparr> top_left_x = 153, top_left_y = 198,
                                        bottom_right_x = 459, bottom_right_y = 594 \<rparr> \<rparr>],
           dimensions = \<lparr> dpi = 72, height = 792, width = 612 \<rparr> \<rparr>"
  by (simp add: ex_first_page_def page_eval ex_store_page0 split_str_def str_or_def
        object_entries_def object_get_def array_index_def is_digit_def Let_def)

lemma ex_page1:
  "processPage ex_env ''S'' (Suc 0) ex_second_page
   = Inr \<lparr> index = 1, markdown = ''Second page'', rawMarkdown = ''Second page'',
           images = [], dimensions = \<lparr> dpi = 72, height = 792, width = 612 \<rparr> \<rparr>"
  by (simp add: ex_second_page_def page_eval ex_store_empty object_entries_def Let_def)

lemma ex_pages:
  "processPages ex_env ''S'' (ocr_pages ex_response)
   = Inr [projr (processPage ex_env ''S'' 0 ex_first_page),
          projr (processPage ex_env ''S'' (Suc 0) ex_second_page)]"
  by (simp add: processPages_def ex_response_def ex_page0 ex_page1)

theorem document_text_fields_witness:
  "\<exists>doc. processOcrResponse ex_env ex_response ''S'' = Inr doc
     \<and> doc_text doc =
         ''Intro ![img-0.jpeg](/assets/ocr-images/S/img-0.jpeg-01234567.jpeg) end''
         @ [CHR 0x0A, CHR 0x0A] @ ''Second page''
     \<and> rawText doc =
         ''Intro ![img-0.jpeg](img-0.jpeg) end'' @ [CHR 0x0A, CHR 0x0A] @ ''Second page''"
proof -
  from processOcrResponse_returns[where env = ex_env and ocrResponse = ex_response
      and sid = "''S''", OF ex_env_bookkeeping]
  obtain doc where doc: "processOcrResponse ex_env ex_response ''S'' = Inr doc" by auto
  then have "pages doc = [projr (processPage ex_env ''S'' 0 ex_first_page),
          projr (processPage ex_env ''S'' (Suc 0) ex_second_page)]"
    by (auto elim!: processOcrResponse_Inr simp: ex_pages)
  then have "map markdown (pages doc)
      = [''Intro ![img-0.jpeg](/assets/ocr-images/S/img-0.jpeg-01234567.jpeg) end'',
         ''Second page'']"
    by (simp add: ex_page0 ex_page1)
  with document_text_fields[OF doc] doc show ?thesis
    by (auto simp: ex_response_def ex_first_page_def ex_second_page_def)
qed

section \<open>Normalized coordinates\<close>

lemma processPage_images:
  assumes "processPage env sid k page = Inr pp" and "j < length (ocr_images page)"
  shows "length (images pp) = length (ocr_images page)"
    and "ref_id (images pp ! j) = ocr_id (ocr_images page ! j)"
    and "coordinates (images pp ! j) = coordinates (imageRefOf page (ocr_images page ! j))"
  using assms by (auto elim!: processPage_Inr simp: updateImage_def imageRefOf_def Let_def)

lemma num_or_nonzero: "d \<noteq> 0 \<Longrightarrow> num_or v d \<noteq> 0"
  by (simp add: num_or_def split: option.splits)

text \<open>
  Claim C1, amended.  For every image of every page of a returned document, the normalized
  coordinates are the quotients below, where a corner coordinate that is missing or zero
  is first replaced by its default (0 for the top-left corner, 100 for the bottom-right
  corner), and the divisors are the declared width and height of the page, or 612 and 792
  when the dimensions are missing or the declared value is zero.  The divisors are never
  zero, and nothing is clamped.
\<close>

theorem normalized_coordinates:
  assumes "processOcrResponse env ocrResponse sid = Inr doc"
    and "i < length (ocr_pages ocrResponse)"
    and "j < length (ocr_images (ocr_pages ocrResponse ! i))"
  shows "let page = ocr_pages ocrResponse ! i;
             img = ocr_images page ! j;
             x0 = num_or (topLeftX img) 0;
             y0 = num_or (topLeftY img) 0;
             x1 = num_or (bottomRightX img) 100;
             y1 = num_or (bottomRightY img) 100;
             pageWidth = num_or (map_option width (ocr_dimensions page)) 612;
             pageHeight = num_or (map_option height (ocr_dimensions page)) 792
         in pageWidth \<noteq> 0 \<and> pageHeight \<noteq> 0
            \<and> ref_id (images (pages doc ! i) ! j) = ocr_id img
            \<and> coordinates (images (pages doc ! i) ! j)
                = \<lparr> coord_x = x0 / pageWidth, coord_y = y0 / pageHeight,
                    coord_width = (x1 - x0) / pageWidth,
                    coord_height = (y1 - y0) / pageHeight \<rparr>"
proof -
  from assms(1) obtain pps where pps: "processPages env sid (ocr_pages ocrResponse) = Inr pps"
    and doc: "pages doc = pps" by (auto elim!: processOcrResponse_Inr)
  have pp: "processPage env sid i (ocr_pages ocrResponse ! i) = Inr (pages doc ! i)"
    using processPages_Inr(2)[OF pps assms(2)] doc by simp
  show ?thesis
    using processPage_images(2,3)[OF pp assms(3)]
    by (simp add: Let_def imageRefOf_def pageWidthOf_def pageHeightOf_def num_or_nonzero)
qed

theorem normalized_coordinates_witness:
  "\<exists>doc. processOcrResponse ex_env ex_response ''S'' = Inr doc
     \<and> coordinates (images (pages doc ! 0) ! 0)
         = \<lparr> coord_x = 153 / 612, coord_y = 198 / 792,
             coord_width = (459 - 153) / 612, coord_height = (594 - 198) / 792 \<rparr>"
proof -
  from processOcrResponse_returns[where env = ex_env and ocrResponse = ex_response
      and sid = "''S''", OF ex_env_bookkeeping]
  obtain doc where doc: "processOcrResponse ex_env ex_response ''S'' = Inr doc" by auto
  have i: "0 < length (ocr_pages ex_response)"
    and j: "0 < length (ocr_images (ocr_pages ex_response ! 0))"
    by (simp_all add: ex_response_def ex_first_page_def)
  from normalized_coordinates[OF doc i j] doc show ?thesis
    by (simp add: Let_def ex_response_def ex_first_page_def num_or_def)
qed

text \<open>
  The claim as the specification words it fails on an image whose corners are all at the
  origin of a page without dimensions: the specification's quotients are all zero, the
  handler takes 100 for the bottom-right corner.
\<close>

lemma origin_page_processed:
  "processPage ex_env ''S'' 0 origin_page
   = Inr \<lparr> index = 0,
           markdown = ''![img-0.jpeg](/assets/ocr-images/S/img-0.jpeg-01234567.jpeg)'',
           rawMarkdown = ''![img-0.jpeg](img-0.jpeg)'',
           images =
             [\<lparr> ref_id = ''img-0.jpeg'',
                url = ''/assets/ocr-images/S/img-0.jpeg-01234567.jpeg'',
                coordinates = \<lparr> coord_x = 0, coord_y = 0,
                                coord_width = 100 / 612, coord_height = 100 / 792 \<rparr>,
                originalCoordinates = \<lparr> top_left_x = 0, top_left_y = 0,
                                        bottom_right_x = 100, bottom_right_y = 100 \<rparr> \<rparr>],
           dimensions = \<lparr> dpi = 72, height = 792, width = 612 \<rparr> \<rparr>"
  by (simp add: origin_page_def page_eval ex_store_page0 split_str_def str_or_def
        object_entries_def object_get_def array_index_def is_digit_def Let_def)

theorem normalized_coordinates_counterexample:
  "\<not> isl (processOcrResponse ex_env origin_response ''S'')
   \<and> map coordinates (all_images (projr (processOcrResponse ex_env origin_response ''S'')))
       = [\<lparr> coord_x = 0, coord_y = 0, coord_width = 100 / 612, coord_height = 100 / 792 \<rparr>]
   \<and> claimed_coordinates origin_page 0 0 0 0
       = \<lparr> coord_x = 0, coord_y = 0, coord_width = 0, coord_height = 0 \<rparr>
   \<and> map coordinates (all_images (projr (processOcrResponse ex_env origin_response ''S'')))
       \<noteq> [claimed_coordinates origin_page 0 0 0 0]"
  by (simp add: processOcrResponse_def processPages_def origin_response_def
        origin_page_processed claimed_coordinates_def)

text \<open>Nothing is clamped: a corner to the right of the page has a fraction above one.\<close>

lemma coordinates_not_clamped:
  "coord_x (coordinates (imageRefOf ex_second_page
      \<lparr> ocr_id = ''img-9.jpeg'', topLeftX = Some 700, topLeftY = Some (-10),
        bottomRightX = Some 800, bottomRightY = Some 90, imageBase64 = None \<rparr>)) = 700 / 612
   \<and> (1::rat) < 700 / 612
   \<and> coord_y (coordinates (imageRefOf ex_second_page
      \<lparr> ocr_id = ''img-9.jpeg'', topLeftX = Some 700, topLeftY = Some (-10),
        bottomRightX = Some 800, bottomRightY = Some 90, imageBase64 = None \<rparr>)) = - 10 / 792
   \<and> (- 10 / 792 :: rat) < 0"
  by (simp add: imageRefOf_def pageWidthOf_def pageHeightOf_def num_or_def
        ex_second_page_def Let_def)

section \<open>The handler without a PDF\<close>

text \<open>
  Claim C10.  When the form of the request has no entry named pdf, the handler answers
  with status 400 and the body \<^verbatim>\<open>{"error": "No PDF file provided"}\<close>, and it has called
  neither the OCR service nor the asset store: the list of its events is empty.
\<close>

theorem missing_pdf_is_rejected:
  assumes "form_get formData ''pdf'' = None"
  shows "POST env (Inr formData)
         = (\<lparr> status = 400, body = ErrorBody ''No PDF file provided'' \<rparr>, [])"
  using assms by (simp add: POST_def)

theorem missing_pdf_is_rejected_witness:
  "POST ex_env (Inr [(''isSample'', FormString ''true'')])
   = (\<lparr> status = 400, body = ErrorBody ''No PDF file provided'' \<rparr>, [])"
  using missing_pdf_is_rejected[of "[(''isSample'', FormString ''true'')]" ex_env]
  by (simp add: form_get_def)

section \<open>The chat route\<close>

text \<open>
  Claim C8.  The call of the chat completion gets the document content inside the system
  prompt, between the two fixed parts of the template, and the plain assistant prompt when
  the content is absent (or empty); the messages are passed on; the only tool is
  ExtractSubject, and its function returns its argument.
\<close>

theorem chat_call:
  "(documentContent req = None \<or> documentContent req = Some []
      \<longrightarrow> system (chatPOST req) = ''You are a helpful assistant.'')
   \<and> (\<forall>content. documentContent req = Some content \<and> content \<noteq> []
      \<longrightarrow> system (chatPOST req) = systemPrefix @ content @ systemSuffix
          \<and> sublist content (system (chatPOST req)))
   \<and> call_messages (chatPOST req) = messages req
   \<and> map fst (tools (chatPOST req)) = [''ExtractSubject'']
   \<and> (\<forall>t \<in> set (map snd (tools (chatPOST req))). \<forall>subject. execute t subject = subject)"
  by (auto simp: chatPOST_def systemMessage_def ExtractSubject_def)

theorem chat_call_witness:
  "system (chatPOST \<lparr> messages = [''Hello''], documentContent = Some ''# Report'' \<rparr>)
     = systemPrefix @ ''# Report'' @ systemSuffix
   \<and> system (chatPOST \<lparr> messages = [''Hello''], documentContent = None \<rparr>)
     = ''You are a helpful assistant.''
   \<and> map (\<lambda>t. execute t ''PMI'')
        (map snd (tools (chatPOST \<lparr> messages = [''Hello''], documentContent = None \<rparr>)))
     = [''PMI'']"
  using chat_call[of "\<lparr> messages = [''Hello''], documentContent = Some ''# Report'' \<rparr>"]
    chat_call[of "\<lparr> messages = [''Hello''], documentContent = None \<rparr>"]
  by (simp add: chatPOST_def)

section \<open>Stored assets without duplicates\<close>

lemma findIndex_bounds: "-1 \<le> findIndex p xs \<and> findIndex p xs < int (length xs)"
  by (induction xs) (auto simp: Let_def)

lemma findIndex_negative: "findIndex p xs < 0 \<longleftrightarrow> (\<forall>x \<in> set xs. \<not> p x)"
proof (induction xs)
  case Nil
  show ?case by simp
next
  case (Cons a xs)
  then show ?case using findIndex_bounds[of p xs] by (auto simp: Let_def)
qed

lemma findIndex_found:
  "\<exists>x \<in> set xs. p x \<Longrightarrow> 0 \<le> findIndex p xs \<and> findIndex p xs < int (length xs)"
  using findIndex_negative[of p xs] findIndex_bounds[of p xs] by auto

lemma findIndex_missing: "\<not> (\<exists>x \<in> set xs. p x) \<Longrightarrow> findIndex p xs = -1"
  using findIndex_negative[of p xs] findIndex_bounds[of p xs] by auto

lemma findIndex_append:
  "findIndex p (pre @ xs) =
     (if \<exists>x \<in> set pre. p x then findIndex p pre
      else if findIndex p xs < 0 then -1 else int (length pre) + findIndex p xs)"
proof (induction pre)
  case Nil
  show ?case using findIndex_bounds[of p xs] by auto
next
  case (Cons a pre)
  show ?case
  proof (cases "p a")
    case True
    then show ?thesis by simp
  next
    case False
    then show ?thesis
      using Cons.IH findIndex_bounds[of p pre] findIndex_bounds[of p xs]
        findIndex_negative[of p pre]
      by (auto simp: Let_def)
  qed
qed

lemma dedup_filter_first_occurrences:
  "map snd (filter (\<lambda>(i, asset).
              int i = findIndex (\<lambda>a. stored_id a = stored_id asset) (pre @ suf))
            (enumerate (length pre) suf))
   = first_occurrences (stored_id ` set pre) suf"
proof (induction suf arbitrary: pre)
  case Nil
  show ?case by simp
next
  case (Cons a suf)
  have rest: "map snd (filter (\<lambda>(i, asset).
              int i = findIndex (\<lambda>b. stored_id b = stored_id asset) (pre @ a # suf))
            (enumerate (Suc (length pre)) suf))
        = first_occurrences (insert (stored_id a) (stored_id ` set pre)) suf"
    using Cons.IH[of "pre @ [a]"] by simp
  show ?case
  proof (cases "stored_id a \<in> stored_id ` set pre")
    case True
    then have ex: "\<exists>x \<in> set pre. stored_id x = stored_id a" by auto
    have "findIndex (\<lambda>b. stored_id b = stored_id a) (pre @ a # suf)
            = findIndex (\<lambda>b. stored_id b = stored_id a) pre"
      using ex by (simp add: findIndex_append)
    with findIndex_found[OF ex]
    have "int (length pre) \<noteq> findIndex (\<lambda>b. stored_id b = stored_id a) (pre @ a # suf)"
      by simp
    with True rest show ?thesis by (simp add: insert_absorb)
  next
    case False
    then have "\<not> (\<exists>x \<in> set pre. stored_id x = stored_id a)" by (metis image_eqI)
    then have "findIndex (\<lambda>b. stored_id b = stored_id a) (pre @ a # suf) = int (length pre)"
      by (simp add: findIndex_append)
    with False rest show ?thesis by simp
  qed
qed

lemma dedupAssets_first_occurrences:
  "dedupAssets allStoredAssets = first_occurrences {} (List.map_filter (\<lambda>a. a) allStoredAssets)"
proof -
  have "map the (filter (\<lambda>a. a \<noteq> None) allStoredAssets) = List.map_filter (\<lambda>a. a) allStoredAssets"
    by (simp add: List.map_filter_def)
  then show ?thesis
    using dedup_filter_first_occurrences[of "[]" "List.map_filter (\<lambda>a. a) allStoredAssets"]
    by (simp add: dedupAssets_def Let_def)
qed

lemma first_occurrences_distinct:
  "distinct (map stored_id (first_occurrences seen xs))
   \<and> stored_id ` set (first_occurrences seen xs) \<inter> seen = {}"
proof (induction xs arbitrary: seen)
  case Nil
  show ?case by simp
next
  case (Cons a xs)
  from Cons.IH[of seen] Cons.IH[of "insert (stored_id a) seen"] show ?case by auto
qed

text \<open>
  Claim C6.  The stored assets of a returned document are the assets derived from the
  images of the document, in page and image order, with every asset dropped whose derived
  identifier has occurred before; no two of them have the same identifier.
\<close>

theorem storedAssets_deduplicated:
  assumes "processOcrResponse env ocrResponse sid = Inr doc"
  shows "distinct (map stored_id (storedAssets doc))
       \<and> all_images doc = concat (map images (pages doc))
       \<and> storedAssets doc = first_occurrences {} (List.map_filter assetOfImage (all_images doc))"
proof -
  have mf: "List.map_filter (\<lambda>a. a) (map assetOfImage imgs) = List.map_filter assetOfImage imgs"
    for imgs by (simp add: List.map_filter_def filter_map comp_def)
  from assms have "storedAssets doc = dedupAssets (map assetOfImage (all_images doc))"
    and "all_images doc = concat (map images (pages doc))"
    by (auto elim!: processOcrResponse_Inr)
  then show ?thesis
    using first_occurrences_distinct[of "{}" "List.map_filter assetOfImage (all_images doc)"]
    by (simp add: dedupAssets_first_occurrences mf)
qed

lemma ex_store_twice:
  "storeImagesFromMap ex_env (PageCall 0) [(''i.png'', ''data:image/png;base64,AAAA'')] (Some ''S'')
   = Inr [(''i.png'',
           \<lparr> asset_id = ''i'', originalId = ''i.png'',
             filePath = Some ''/app/public/assets/ocr-images/S/i.png-01234567.png'',
             publicPath = ''/assets/ocr-images/S/i.png-01234567.png'',
             mimeType = ''image/png'' \<rparr>)]"
  by (simp add: store_eval ex_env_def)

lemma twice_images:
  "map (\<lambda>img. (ref_id img, url img))
     (images (projr (processPage ex_env ''S'' 0 (hd (ocr_pages twice_response)))))
   = [(''i.png'', ''/assets/ocr-images/S/i.png-01234567.png''),
      (''i.png'', ''/assets/ocr-images/S/i.png-01234567.png'')]"
  by (simp add: twice_response_def processPage_def buildImageMap_def assign_string_def dataUrlOf_def
        imageRefOf_def linkTarget_def updateImage_def str_or_def object_get_def
        ex_store_twice Let_def)

theorem storedAssets_deduplicated_witness:
  "\<exists>doc. processOcrResponse ex_env twice_response ''S'' = Inr doc
     \<and> map ref_id (all_images doc) = [''i.png'', ''i.png'']
     \<and> map stored_id (storedAssets doc) = [''i'']"
proof -
  from processOcrResponse_returns[where env = ex_env and ocrResponse = twice_response
      and sid = "''S''", OF ex_env_bookkeeping]
  obtain doc where doc: "processOcrResponse ex_env twice_response ''S'' = Inr doc" by auto
  have len: "length (ocr_pages twice_response) = 1" by (simp add: twice_response_def)
  from doc obtain pps where pps: "processPages ex_env ''S'' (ocr_pages twice_response) = Inr pps"
    and d: "pages doc = pps" by (auto elim!: processOcrResponse_Inr)
  from processPages_Inr(1)[OF pps] len obtain pp where pp: "pps = [pp]"
    by (cases pps) auto
  from processPages_Inr(2)[OF pps, of 0] len pp
  have "processPage ex_env ''S'' 0 (hd (ocr_pages twice_response)) = Inr pp"
    by (simp add: hd_conv_nth twice_response_def)
  with twice_images
  have imgs: "map (\<lambda>img. (ref_id img, url img)) (images pp)
      = [(''i.png'', ''/assets/ocr-images/S/i.png-01234567.png''),
         (''i.png'', ''/assets/ocr-images/S/i.png-01234567.png'')]" by simp
  then obtain a b where ab: "images pp = [a, b]"
    "ref_id a = ''i.png''" "url a = ''/assets/ocr-images/S/i.png-01234567.png''"
    "ref_id b = ''i.png''" "url b = ''/assets/ocr-images/S/i.png-01234567.png''"
    by (cases "images pp"; cases "tl (images pp)"; cases "tl (tl (images pp))") auto
  from storedAssets_deduplicated[OF doc] d pp ab doc show ?thesis
    by (simp add: List.map_filter_def assetOfImage_def split_str_def str_or_def
          pop_opt_def nth_opt_def Let_def)
qed

section \<open>The rewrite of the image references in the markdown\<close>

subsection \<open>Splitting and joining\<close>

lemma split_ne_not_Nil [simp]: "split_ne sep s \<noteq> []"
  by (induction sep s rule: split_ne.induct) (auto split: list.splits)

lemma join_str_Cons: "ps \<noteq> [] \<Longrightarrow> join_str sep (p # ps) = p @ sep @ join_str sep ps"
  by (cases ps) simp_all

lemma join_str_Cons_Cons: "join_str sep ((c # p) # ps) = c # join_str sep (p # ps)"
  by (cases ps) simp_all

lemma prefix_drop_pred:
  assumes "sep \<noteq> []" "prefix sep (c # cs)"
  shows "c # cs = sep @ drop (length sep - 1) cs"
proof -
  from assms(2) obtain r where r: "c # cs = sep @ r" by (auto simp: prefix_def)
  with assms(1) obtain ss where ss: "sep = c # ss" by (cases sep) auto
  with r have "cs = ss @ r" by simp
  then show ?thesis using ss by simp
qed

lemma join_split_ne: "sep \<noteq> [] \<Longrightarrow> join_str sep (split_ne sep s) = s"
proof (induction sep s rule: split_ne.induct)
  case (1 sep)
  then show ?case by simp
next
  case (2 sep c cs)
  show ?case
  proof (cases "prefix sep (c # cs)")
    case True
    with 2 have ih:
      "join_str sep (split_ne sep (drop (length sep - 1) cs)) = drop (length sep - 1) cs"
      by simp
    have "split_ne sep (c # cs) = [] # split_ne sep (drop (length sep - 1) cs)"
      using True 2(3) by simp
    then have "join_str sep (split_ne sep (c # cs)) = sep @ drop (length sep - 1) cs"
      using ih by (simp add: join_str_Cons)
    also have "\<dots> = c # cs" using prefix_drop_pred[OF 2(3) True] by simp
    finally show ?thesis .
  next
    case False
    with 2 have ih: "join_str sep (split_ne sep cs) = cs" by simp
    obtain p ps where ps: "split_ne sep cs = p # ps"
      using split_ne_not_Nil[of sep cs] by (cases "split_ne sep cs") auto
    with False ih show ?thesis by (simp add: join_str_Cons_Cons)
  qed
qed

lemma sublist_length_le: "sublist xs ys \<Longrightarrow> length xs \<le> length ys"
  by (auto simp: sublist_def)

lemma not_sublist_butlast: "sep \<noteq> [] \<Longrightarrow> \<not> sublist sep (butlast sep)"
  by (cases sep rule: rev_cases) (auto dest!: sublist_length_le)

lemma leftmost_cut_split_ne: "sep \<noteq> [] \<Longrightarrow> leftmost_cut sep (split_ne sep s)"
proof (induction sep s rule: split_ne.induct)
  case (1 sep)
  then show ?case by (simp add: leftmost_cut_def)
next
  case (2 sep c cs)
  show ?case
  proof (cases "prefix sep (c # cs)")
    case True
    with 2 have ih: "leftmost_cut sep (split_ne sep (drop (length sep - 1) cs))" by simp
    with True 2(3) show ?thesis
      by (simp add: leftmost_cut_def not_sublist_butlast)
  next
    case False
    with 2 have ih: "leftmost_cut sep (split_ne sep cs)" by simp
    obtain p ps where ps: "split_ne sep cs = p # ps"
      using split_ne_not_Nil[of sep cs] by (cases "split_ne sep cs") auto
    have cs: "cs = join_str sep (p # ps)" using join_split_ne[OF 2(3), of cs] ps by simp
    show ?thesis
    proof (cases ps)
      case Nil
      with ih ps cs False show ?thesis
        by (simp add: leftmost_cut_def sublist_Cons_right)
    next
      case (Cons q qs)
      obtain b l where bl: "sep = b @ [l]" using 2(3) by (cases sep rule: rev_cases) auto
      have "\<not> prefix sep (c # p @ butlast sep)"
      proof
        assume a: "prefix sep (c # p @ butlast sep)"
        have "c # cs = (c # p @ butlast sep) @ (l # join_str sep (q # qs))"
          using cs Cons bl by simp
        then have "prefix (c # p @ butlast sep) (c # cs)" by (simp add: prefix_def)
        with a have "prefix sep (c # cs)" by (rule prefix_order.trans)
        with False show False by simp
      qed
      with ih ps Cons False show ?thesis
        by (simp add: leftmost_cut_def sublist_Cons_right)
    qed
  qed
qed

lemma split_ne_last_part: "\<not> sublist sep p \<Longrightarrow> split_ne sep p = [p]"
proof (induction p)
  case Nil
  then show ?case by simp
next
  case (Cons c p)
  then have "\<not> prefix sep (c # p)" "\<not> sublist sep p"
    by (auto simp: sublist_Cons_right)
  with Cons.IH show ?case by simp
qed

lemma split_ne_skip_part:
  assumes "sep \<noteq> []"
  shows "\<not> sublist sep (p @ butlast sep)
         \<Longrightarrow> split_ne sep (p @ sep @ rest) = p # split_ne sep rest"
proof (induction p)
  case Nil
  from assms obtain s ss where s: "sep = s # ss" by (cases sep) auto
  then show ?case by simp
next
  case (Cons c p)
  then have np: "\<not> prefix sep (c # p @ butlast sep)"
    and ns: "\<not> sublist sep (p @ butlast sep)"
    by (auto simp: sublist_Cons_right)
  have "\<not> prefix sep (c # p @ sep @ rest)"
  proof
    assume a: "prefix sep (c # p @ sep @ rest)"
    obtain b l where bl: "sep = b @ [l]" using assms by (cases sep rule: rev_cases) auto
    have b: "prefix (c # p @ butlast sep) (c # p @ sep @ rest)"
      using bl by (simp add: prefix_def)
    have "length sep \<le> length (c # p @ butlast sep)" using assms by simp
    with a b have "prefix sep (c # p @ butlast sep)"
      by (metis prefix_length_prefix)
    with np show False by simp
  qed
  with Cons.IH[OF ns] show ?case by simp
qed

text \<open>A text has one leftmost cut only: splitting is the inverse of joining on such cuts.\<close>

lemma split_ne_join:
  assumes "sep \<noteq> []"
  shows "leftmost_cut sep parts \<Longrightarrow> split_ne sep (join_str sep parts) = parts"
proof (induction parts)
  case Nil
  then show ?case by (simp add: leftmost_cut_def)
next
  case (Cons p ps)
  show ?case
  proof (cases ps)
    case Nil
    with Cons.prems show ?thesis by (simp add: leftmost_cut_def split_ne_last_part)
  next
    case (Cons q qs)
    with Cons.prems have a: "\<not> sublist sep (p @ butlast sep)" and b: "leftmost_cut sep ps"
      by (simp_all add: leftmost_cut_def)
    from Cons.IH[OF b] split_ne_skip_part[OF assms a] Cons show ?thesis by simp
  qed
qed

lemma imagePattern_not_Nil [simp]: "imagePattern i \<noteq> []"
  by (simp add: imagePattern_def)

subsection \<open>The loop over the image map\<close>

lemma fold_replaceImage_rewritten:
  "rewritten (map (\<lambda>e. (fst e, linkTarget savedImages (fst e) (snd e))) es) md
     (fold (replaceImage savedImages) es md)"
proof (induction es arbitrary: md)
  case Nil
  show ?case by (simp add: rewritten_Nil)
next
  case (Cons e es)
  let ?parts = "split_ne (imagePattern (fst e)) md"
  let ?target = "linkTarget savedImages (fst e) (snd e)"
  have step: "replaceImage savedImages e md = join_str (imageReplacement (fst e) ?target) ?parts"
    by (simp add: replaceImage_def split_join_def split_str_def)
  have "rewritten ((fst e, ?target) # map (\<lambda>e. (fst e, linkTarget savedImages (fst e) (snd e))) es)
          (join_str (imagePattern (fst e)) ?parts)
          (fold (replaceImage savedImages) es (replaceImage savedImages e md))"
    by (rule rewritten_Cons) (simp_all add: leftmost_cut_split_ne step Cons.IH)
  then show ?case by (simp add: join_split_ne)
qed

lemma rewritten_unique: "rewritten es md a \<Longrightarrow> rewritten es md b \<Longrightarrow> a = b"
proof (induction es md a arbitrary: b rule: rewritten.induct)
  case (rewritten_Nil md)
  then show ?case by (auto elim: rewritten.cases)
next
  case (rewritten_Cons i parts es target md')
  from rewritten_Cons.prems obtain parts' where
    p: "leftmost_cut (imagePattern i) parts'"
       "join_str (imagePattern i) parts' = join_str (imagePattern i) parts"
       "rewritten es (join_str (imageReplacement i target) parts') b"
    by (auto elim: rewritten.cases)
  have "parts' = split_ne (imagePattern i) (join_str (imagePattern i) parts')"
    by (rule split_ne_join[OF imagePattern_not_Nil p(1), symmetric])
  also have "\<dots> = split_ne (imagePattern i) (join_str (imagePattern i) parts)"
    by (simp only: p(2))
  also have "\<dots> = parts"
    by (rule split_ne_join[OF imagePattern_not_Nil rewritten_Cons.hyps(1)])
  finally have "parts' = parts" .
  with p(3) show ?case by (auto intro: rewritten_Cons.IH)
qed

text \<open>With one image id on the page, the loop is the rewrite as the specification words it.\<close>

lemma claimed_rewrite_single:
  "claimed_rewrite [(i, target)] md
   = split_join (imagePattern i) (imageReplacement i target) md"
proof (induction "imagePattern i" md rule: split_ne.induct)
  case 1
  show ?case by (simp add: split_join_def split_str_def)
next
  case (2 c cs)
  show ?case
  proof (cases "prefix (imagePattern i) (c # cs)")
    case True
    with 2 show ?thesis
      by (simp add: split_join_def split_str_def join_str_Cons)
  next
    case False
    obtain p ps where ps: "split_ne (imagePattern i) cs = p # ps"
      using split_ne_not_Nil[of "imagePattern i" cs] by (cases "split_ne (imagePattern i) cs") auto
    with False 2 show ?thesis
      by (simp add: split_join_def split_str_def join_str_Cons_Cons)
  qed
qed

text \<open>
  An entry whose placeholder does not occur leaves the text as it is; a markdown with none
  of the placeholders of the image map is not changed at all.
\<close>

lemma replaceImage_absent:
  "\<not> sublist (imagePattern (fst e)) md \<Longrightarrow> replaceImage savedImages e md = md"
  by (simp add: replaceImage_def split_join_def split_str_def split_ne_last_part)

lemma fold_replaceImage_absent:
  "(\<And>e. e \<in> set es \<Longrightarrow> \<not> sublist (imagePattern (fst e)) md)
   \<Longrightarrow> fold (replaceImage savedImages) es md = md"
  by (induction es) (simp_all add: replaceImage_absent)

text \<open>
  Claim C2, amended.  The processed markdown of a page comes from the page's markdown by
  taking the entries of the page's image map in the order of \<^verbatim>\<open>Object.entries\<close> and,
  for each entry, replacing in the text as the entries before it have left it the leftmost,
  non-overlapping occurrences of the placeholder by the link, the text between them being
  kept.  The target of the link is the public path of the persisted asset when the image
  was saved (and the path is not empty), and the data URL of the image otherwise.
\<close>

theorem markdown_rewritten:
  assumes "processPage env sid k page = Inr pp"
  shows "\<exists>savedImages.
           storeImagesFromMap env (PageCall k) (buildImageMap (ocr_images page)) (Some sid)
             = Inr savedImages
           \<and> rewritten
               (map (\<lambda>(i, dataUrl).
                       (i, case object_get savedImages i of
                             None \<Rightarrow> dataUrl
                           | Some asset \<Rightarrow>
                               if publicPath asset = [] then dataUrl else publicPath asset))
                  (object_entries (buildImageMap (ocr_images page))))
               (ocr_markdown page) (markdown pp)"
proof -
  from assms obtain savedImages where
    s: "storeImagesFromMap env (PageCall k) (buildImageMap (ocr_images page)) (Some sid)
          = Inr savedImages"
    and m: "markdown pp = fold (replaceImage savedImages)
              (object_entries (buildImageMap (ocr_images page))) (ocr_markdown page)"
    by (auto elim!: processPage_Inr)
  have "(\<lambda>e. (fst e, linkTarget savedImages (fst e) (snd e)))
        = (\<lambda>(i, dataUrl).
                       (i, case object_get savedImages i of
                             None \<Rightarrow> dataUrl
                           | Some asset \<Rightarrow>
                               if publicPath asset = [] then dataUrl else publicPath asset))"
    by (auto simp: linkTarget_def str_or_def fun_eq_iff split: option.splits)
  with fold_replaceImage_rewritten[of savedImages
      "object_entries (buildImageMap (ocr_images page))" "ocr_markdown page"] s m
  show ?thesis by auto
qed

lemma ex_first_page_imageMap:
  "buildImageMap (ocr_images ex_first_page) = [(''img-0.jpeg'', ''data:image/jpeg;base64,AAAA'')]"
  by (simp add: ex_first_page_def buildImageMap_def assign_string_def dataUrlOf_def str_or_def)

theorem markdown_rewritten_witness:
  "rewritten [(''img-0.jpeg'', ''/assets/ocr-images/S/img-0.jpeg-01234567.jpeg'')]
     ''Intro ![img-0.jpeg](img-0.jpeg) end''
     ''Intro ![img-0.jpeg](/assets/ocr-images/S/img-0.jpeg-01234567.jpeg) end''"
  using markdown_rewritten[OF ex_page0]
  by (simp add: ex_first_page_imageMap ex_store_page0 object_entries_def object_get_def
        array_index_def is_digit_def, simp add: ex_first_page_def)

text \<open>
  The claim as the specification words it fails when the placeholder of one image lies
  inside the id of another: the markdown below is the placeholder of the second image, which
  the specification has replaced by the link to the second asset; the loop first rewrites
  the two placeholders of the first image inside it, and then finds nothing to replace.
\<close>

lemma nested_store:
  "storeImagesFromMap ex_env (PageCall 0)
     [(''x'', ''data:image/png;base64,AAAA''), (''![x](x)'', ''data:image/png;base64,AAAA'')]
     (Some ''S'')
   = Inr [(''x'',
           \<lparr> asset_id = ''x-01234567'', originalId = ''x'',
             filePath = Some ''/app/public/assets/ocr-images/S/x-01234567.png'',
             publicPath = ''/assets/ocr-images/S/x-01234567.png'',
             mimeType = ''image/png'' \<rparr>),
          (''![x](x)'',
           \<lparr> asset_id = ''![x](x)-01234567'', originalId = ''![x](x)'',
             filePath = Some ''/app/public/assets/ocr-images/S/![x](x)-01234567.png'',
             publicPath = ''/assets/ocr-images/S/![x](x)-01234567.png'',
             mimeType = ''image/png'' \<rparr>)]"
  by (simp add: store_eval ex_env_def)

lemma nested_imageMap:
  "buildImageMap (ocr_images nested_page)
   = [(''x'', ''data:image/png;base64,AAAA''), (''![x](x)'', ''data:image/png;base64,AAAA'')]"
  by (simp add: nested_page_def buildImageMap_def assign_string_def dataUrlOf_def str_or_def)

lemma nested_entries:
  "object_entries
     [(''x'', ''data:image/png;base64,AAAA''), (''![x](x)'', ''data:image/png;base64,AAAA'')]
   = [(''x'', ''data:image/png;base64,AAAA''), (''![x](x)'', ''data:image/png;base64,AAAA'')]"
  by (simp add: object_entries_def array_index_def is_digit_def)

lemma nested_markdown:
  "\<not> isl (processPage ex_env ''S'' 0 nested_page)
   \<and> markdown (projr (processPage ex_env ''S'' 0 nested_page))
       = ''![![x](/assets/ocr-images/S/x-01234567.png)](![x](/assets/ocr-images/S/x-01234567.png))''"
  apply (simp only: processPage_def Let_def nested_imageMap nested_store nested_entries)
  apply (simp add: nested_page_def replaceImage_def split_join_def split_str_def
      imagePattern_def imageReplacement_def linkTarget_def object_get_def str_or_def)
  done

lemma nested_claimed:
  "claimed_rewrite
     [(''x'', ''/assets/ocr-images/S/x-01234567.png''),
      (''![x](x)'', ''/assets/ocr-images/S/![x](x)-01234567.png'')]
     (ocr_markdown nested_page)
   = ''![![x](x)](/assets/ocr-images/S/![x](x)-01234567.png)''"
  by (simp add: nested_page_def imagePattern_def imageReplacement_def)

theorem markdown_rewrite_counterexample:
  "\<not> isl (processPage ex_env ''S'' 0 nested_page)
   \<and> markdown (projr (processPage ex_env ''S'' 0 nested_page))
       = ''![![x](/assets/ocr-images/S/x-01234567.png)](![x](/assets/ocr-images/S/x-01234567.png))''
   \<and> claimed_rewrite
         [(''x'', ''/assets/ocr-images/S/x-01234567.png''),
          (''![x](x)'', ''/assets/ocr-images/S/![x](x)-01234567.png'')]
         (ocr_markdown nested_page)
       = ''![![x](x)](/assets/ocr-images/S/![x](x)-01234567.png)''
   \<and> markdown (projr (processPage ex_env ''S'' 0 nested_page))
       \<noteq> claimed_rewrite
           [(''x'', ''/assets/ocr-images/S/x-01234567.png''),
            (''![x](x)'', ''/assets/ocr-images/S/![x](x)-01234567.png'')]
           (ocr_markdown nested_page)"
  using nested_markdown nested_claimed by simp

section \<open>An image that cannot be saved\<close>

lemma object_get_object_set:
  "object_get (object_set obj k v) k' = (if k' = k then Some v else object_get obj k')"
  by (induction obj) (auto simp: object_get_def)

lemma set_object_entries: "set (object_entries obj) = set obj"
  by (auto simp: object_entries_def)

lemma storeOne_lookup:
  "object_get (storeOne store acc e) j
   = (case store (fst e) (snd e) of
        Inr asset \<Rightarrow> if j = fst e then Some asset else object_get acc j
      | Inl error \<Rightarrow> object_get acc j)"
  by (simp add: storeOne_def object_get_object_set split: sum.splits)

text \<open>An id without entry in the result had none before, and every save of it threw.\<close>

lemma storeOne_missing:
  "object_get (foldl (storeOne store) acc es) j = None
   \<Longrightarrow> object_get acc j = None \<and> (\<forall>dataUrl. (j, dataUrl) \<in> set es \<longrightarrow> isl (store j dataUrl))"
proof (induction es arbitrary: acc)
  case Nil
  then show ?case by simp
next
  case (Cons e es)
  from Cons.IH[of "storeOne store acc e"] Cons.prems
  have a: "object_get (storeOne store acc e) j = None"
    and b: "\<forall>dataUrl. (j, dataUrl) \<in> set es \<longrightarrow> isl (store j dataUrl)" by simp_all
  from a have "object_get acc j = None \<and> (fst e = j \<longrightarrow> isl (store j (snd e)))"
    by (auto simp: storeOne_lookup split: sum.splits if_splits)
  with b show ?case by (cases e) auto
qed

text \<open>An entry of the result was there before, or is the asset of a save that succeeded.\<close>

lemma storeOne_present:
  "object_get (foldl (storeOne store) acc es) j = Some asset
   \<Longrightarrow> object_get acc j = Some asset
       \<or> (\<exists>dataUrl. (j, dataUrl) \<in> set es \<and> store j dataUrl = Inr asset)"
proof (induction es arbitrary: acc)
  case Nil
  then show ?case by simp
next
  case (Cons e es)
  from Cons.IH[of "storeOne store acc e"] Cons.prems
  consider "object_get (storeOne store acc e) j = Some asset"
    | "\<exists>dataUrl. (j, dataUrl) \<in> set es \<and> store j dataUrl = Inr asset" by auto
  then show ?case
  proof cases
    case 1
    then have "object_get acc j = Some asset \<or> (fst e = j \<and> store j (snd e) = Inr asset)"
      by (auto simp: storeOne_lookup split: sum.splits if_splits)
    then show ?thesis by (cases e) auto
  next
    case 2
    then show ?thesis by auto
  qed
qed

lemma storeOne_skips:
  assumes "object_get acc i = None"
    and "\<And>dataUrl. (i, dataUrl) \<in> set es \<Longrightarrow> isl (store i dataUrl)"
  shows "object_get (foldl (storeOne store) acc es) i = None"
proof (cases "object_get (foldl (storeOne store) acc es) i")
  case None
  then show ?thesis .
next
  case (Some asset)
  from storeOne_present[OF Some] assms(1) obtain dataUrl
    where "(i, dataUrl) \<in> set es" "store i dataUrl = Inr asset" by auto
  with assms(2)[of dataUrl] show ?thesis by simp
qed

text \<open>
  With unique keys, the result is the list of the entries whose save succeeded, each with
  its asset, in the order of the entries.
\<close>

lemma object_set_fresh: "k \<notin> fst ` set obj \<Longrightarrow> object_set obj k v = obj @ [(k, v)]"
  by (induction obj) auto

lemma storeOne_distinct:
  assumes "distinct (map fst es)" and "fst ` set acc \<inter> fst ` set es = {}"
  shows "foldl (storeOne store) acc es
         = acc @ map (\<lambda>e. (fst e, projr (store (fst e) (snd e))))
                   (filter (\<lambda>e. \<not> isl (store (fst e) (snd e))) es)"
  using assms
proof (induction es arbitrary: acc)
  case Nil
  then show ?case by simp
next
  case (Cons e es)
  from Cons.prems have fresh: "fst e \<notin> fst ` set acc" by auto
  show ?case
  proof (cases "store (fst e) (snd e)")
    case (Inl error)
    then have "storeOne store acc e = acc" by (simp add: storeOne_def)
    with Cons.IH[of acc] Cons.prems Inl show ?thesis by auto
  next
    case (Inr asset)
    then have s: "storeOne store acc e = acc @ [(fst e, asset)]"
      by (simp add: storeOne_def object_set_fresh[OF fresh])
    have "fst ` set (acc @ [(fst e, asset)]) \<inter> fst ` set es = {}"
      using Cons.prems by auto
    with Cons.IH[of "acc @ [(fst e, asset)]"] Cons.prems s Inr show ?thesis by simp
  qed
qed

lemma distinct_object_entries:
  assumes "distinct (map fst obj)"
  shows "distinct (map fst (object_entries obj))"
proof -
  from assms have d: "distinct obj" and i: "inj_on fst (set obj)"
    by (simp_all add: distinct_map)
  have "distinct (object_entries obj)"
    using d by (auto simp: object_entries_def)
  moreover have "inj_on fst (set (object_entries obj))"
    using i by (simp add: set_object_entries)
  ultimately show ?thesis by (simp add: distinct_map)
qed

lemma storeImagesFromMap_Inr:
  assumes "storeImagesFromMap env cs imageMap sid = Inr savedImages"
  shows "savedImages = foldl (storeOne (storeImage env cs sid)) [] (object_entries imageMap)"
proof -
  have "storeImage env cs sid
        = (\<lambda>imageId base64Data.
             if isVercel env
             then storeImageToBlob env cs imageId base64Data (str_or sid (sessionUuid env cs))
             else storeImageToFileSystem env cs imageId base64Data
                    (pathJoin env [ASSET_DIR env, str_or sid (sessionUuid env cs)]))"
    by (simp add: storeImage_def fun_eq_iff Let_def)
  with assms show ?thesis
    unfolding storeImagesFromMap_def Let_def
    by (auto split: if_splits option.splits)
qed

text \<open>
  Claim C9.  Whatever happens to the single images, the store returns as soon as its
  bookkeeping (the session directory and the session file, on the file system) goes through.
  An image id all of whose saves throw has no entry in the returned map, and the rewrite of
  the markdown then links the image to its data URL (or to the placeholder path, which is
  the data URL of an image without payload).  Only such images are omitted: an id is
  without entry only if every save of it threw, an entry is the asset that a save of its
  id returned, and with unique keys the returned map is exactly the list of the images
  whose save succeeded, each with its asset, in the order of \<^verbatim>\<open>Object.entries\<close>.
\<close>

theorem failed_image_is_omitted:
  assumes "bookkeeping_ok env cs sid"
    and "\<forall>dataUrl. (i, dataUrl) \<in> set imageMap \<longrightarrow> isl (storeImage env cs sid i dataUrl)"
  shows "\<exists>savedImages.
           storeImagesFromMap env cs imageMap sid = Inr savedImages
           \<and> object_get savedImages i = None
           \<and> (\<forall>dataUrl md.
                 replaceImage savedImages (i, dataUrl) md
                 = split_join (imagePattern i) (imageReplacement i dataUrl) md)
           \<and> (\<forall>j. case object_get savedImages j of
                      None \<Rightarrow>
                        \<forall>dataUrl. (j, dataUrl) \<in> set imageMap
                                   \<longrightarrow> isl (storeImage env cs sid j dataUrl)
                    | Some asset \<Rightarrow>
                        \<exists>dataUrl. (j, dataUrl) \<in> set imageMap
                                   \<and> storeImage env cs sid j dataUrl = Inr asset)
           \<and> (distinct (map fst imageMap)
                \<longrightarrow> savedImages
                    = map (\<lambda>e. (fst e, projr (storeImage env cs sid (fst e) (snd e))))
                        (filter (\<lambda>e. \<not> isl (storeImage env cs sid (fst e) (snd e)))
                           (object_entries imageMap)))"
proof -
  from storeImagesFromMap_returns[OF assms(1)] obtain savedImages
    where s: "storeImagesFromMap env cs imageMap sid = Inr savedImages" by auto
  note f = storeImagesFromMap_Inr[OF s]
  have "object_get (foldl (storeOne (storeImage env cs sid)) [] (object_entries imageMap)) i = None"
    by (rule storeOne_skips) (use assms(2) in \<open>auto simp: object_get_def set_object_entries\<close>)
  with f have none: "object_get savedImages i = None" by simp
  then have fallback: "replaceImage savedImages (i, dataUrl) md
               = split_join (imagePattern i) (imageReplacement i dataUrl) md" for dataUrl md
    by (simp add: replaceImage_def linkTarget_def str_or_def)
  have lookup: "case object_get savedImages j of
                  None \<Rightarrow>
                    \<forall>dataUrl. (j, dataUrl) \<in> set imageMap
                               \<longrightarrow> isl (storeImage env cs sid j dataUrl)
                | Some asset \<Rightarrow>
                    \<exists>dataUrl. (j, dataUrl) \<in> set imageMap
                               \<and> storeImage env cs sid j dataUrl = Inr asset" for j
  proof (cases "object_get savedImages j")
    case None
    with storeOne_missing[of "storeImage env cs sid" "[]" "object_entries imageMap" j] f
    show ?thesis by (simp add: set_object_entries)
  next
    case (Some asset)
    with storeOne_present[of "storeImage env cs sid" "[]" "object_entries imageMap" j asset] f
    show ?thesis by (simp add: set_object_entries object_get_def)
  qed
  have exact: "savedImages
                 = map (\<lambda>e. (fst e, projr (storeImage env cs sid (fst e) (snd e))))
                     (filter (\<lambda>e. \<not> isl (storeImage env cs sid (fst e) (snd e)))
                        (object_entries imageMap))"
    if "distinct (map fst imageMap)"
    using storeOne_distinct[OF distinct_object_entries[OF that],
        of "[]" "storeImage env cs sid"] f by simp
  from s none fallback lookup exact show ?thesis by blast
qed

lemma flaky_store:
  "storeImagesFromMap flaky_env (PageCall 0)
     [(''img-1.png'', ''data:image/png;base64,BBBB''),
      (''img-2.png'', ''data:image/png;base64,CCCC'')] (Some ''S'')
   = Inr [(''img-2.png'',
           \<lparr> asset_id = ''img-2'', originalId = ''img-2.png'',
             filePath = Some ''/app/public/assets/ocr-images/S/img-2.png-01234567.png'',
             publicPath = ''/assets/ocr-images/S/img-2.png-01234567.png'',
             mimeType = ''image/png'' \<rparr>)]"
  by (simp add: store_eval flaky_env_def ex_env_def sublist_code)

text \<open>
  The image that cannot be saved comes first; the image behind it is saved all the same.
\<close>

theorem failed_image_is_omitted_witness:
  "\<exists>savedImages.
     storeImagesFromMap flaky_env (PageCall 0)
       [(''img-1.png'', ''data:image/png;base64,BBBB''),
        (''img-2.png'', ''data:image/png;base64,CCCC'')] (Some ''S'') = Inr savedImages
     \<and> object_get savedImages ''img-1.png'' = None
     \<and> map_option publicPath (object_get savedImages ''img-2.png'')
         = Some ''/assets/ocr-images/S/img-2.png-01234567.png''
     \<and> map fst savedImages = [''img-2.png'']
     \<and> replaceImage savedImages (''img-1.png'', ''data:image/png;base64,BBBB'')
           ''See ![img-1.png](img-1.png) and ![img-2.png](img-2.png).''
         = ''See ![img-1.png](data:image/png;base64,BBBB) and ![img-2.png](img-2.png).''"
proof -
  have b: "bookkeeping_ok flaky_env (PageCall 0) (Some ''S'')"
    by (simp add: bookkeeping_ok_def flaky_env_def ex_env_def ensureDirectoryExists_def
          ASSET_DIR_def str_or_def sublist_code)
  have f: "\<forall>dataUrl. (''img-1.png'', dataUrl)
               \<in> set [(''img-1.png'', ''data:image/png;base64,BBBB''),
                      (''img-2.png'', ''data:image/png;base64,CCCC'')]
             \<longrightarrow> isl (storeImage flaky_env (PageCall 0) (Some ''S'') ''img-1.png'' dataUrl)"
    by (simp add: storeImage_def store_eval flaky_env_def ex_env_def sublist_code)
  from failed_image_is_omitted[OF b f] obtain savedImages where
    s: "storeImagesFromMap flaky_env (PageCall 0)
          [(''img-1.png'', ''data:image/png;base64,BBBB''),
           (''img-2.png'', ''data:image/png;base64,CCCC'')] (Some ''S'') = Inr savedImages"
    and r: "object_get savedImages ''img-1.png'' = None"
      "\<forall>dataUrl md.
         replaceImage savedImages (''img-1.png'', dataUrl) md
         = split_join (imagePattern ''img-1.png'') (imageReplacement ''img-1.png'' dataUrl) md"
    by blast
  from s flaky_store have "savedImages
      = [(''img-2.png'',
           \<lparr> asset_id = ''img-2'', originalId = ''img-2.png'',
             filePath = Some ''/app/public/assets/ocr-images/S/img-2.png-01234567.png'',
             publicPath = ''/assets/ocr-images/S/img-2.png-01234567.png'',
             mimeType = ''image/png'' \<rparr>)]" by auto
  then have "map fst savedImages = [''img-2.png'']"
    "map_option publicPath (object_get savedImages ''img-2.png'')
       = Some ''/assets/ocr-images/S/img-2.png-01234567.png''"
    by (simp_all add: object_get_def)
  with s r show ?thesis
    by (auto simp: split_join_def split_str_def imagePattern_def imageReplacement_def)
qed

section \<open>Images without payload\<close>

lemma buildImageMap_keys:
  "object_get
     (foldl (\<lambda>imageMap img. assign_string imageMap (ocr_id img) (dataUrlOf img)) acc imgs) k
     \<noteq> None
   \<longleftrightarrow> object_get acc k \<noteq> None \<or> (k \<in> ocr_id ` set imgs \<and> k \<noteq> ''__proto__'')"
  by (induction imgs arbitrary: acc) (auto simp: assign_string_def object_get_object_set)

text \<open>
  Every image of a page has an entry, under its id, in the image map of the page, unless
  its id is \<^verbatim>\<open>__proto__\<close>; an image with that id has none.
\<close>

lemma image_has_map_entry:
  "img \<in> set (ocr_images page) \<Longrightarrow> ocr_id img \<noteq> ''__proto__''
   \<Longrightarrow> \<exists>dataUrl. object_get (buildImageMap (ocr_images page)) (ocr_id img) = Some dataUrl"
  using buildImageMap_keys[of "[]" "ocr_images page" "ocr_id img"]
  by (auto simp: buildImageMap_def)

lemma proto_has_no_map_entry:
  "object_get (buildImageMap imgs) ''__proto__'' = None"
  using buildImageMap_keys[of "[]" imgs "''__proto__''"]
  by (auto simp: buildImageMap_def object_get_def)

text \<open>
  The URL of an image without payload is the placeholder path only as long as nothing was
  saved under its id.
\<close>

lemma url_without_payload:
  assumes "processPage env sid k page = Inr pp" and "j < length (ocr_images page)"
    and "imageBase64 (ocr_images page ! j) = None"
  shows "\<exists>savedImages.
           storeImagesFromMap env (PageCall k) (buildImageMap (ocr_images page)) (Some sid)
             = Inr savedImages
           \<and> url (images pp ! j)
               = (case object_get savedImages (ocr_id (ocr_images page ! j)) of
                    None \<Rightarrow> placeholderPath
                  | Some asset \<Rightarrow>
                      if publicPath asset = [] then placeholderPath else publicPath asset)"
  using assms
  by (auto elim!: processPage_Inr
        simp: updateImage_def imageRefOf_def linkTarget_def dataUrlOf_def str_or_def Let_def
        split: option.splits)

lemma bare_store:
  "storeImagesFromMap ex_env (PageCall 0)
     [(''img-0.jpeg'', ''/placeholder.svg?height=200&width=300'')] (Some ''S'')
   = Inr [(''img-0.jpeg'',
           \<lparr> asset_id = ''img-0'', originalId = ''img-0.jpeg'',
             filePath = Some ''/app/public/assets/ocr-images/S/img-0.jpeg-01234567.png'',
             publicPath = ''/assets/ocr-images/S/img-0.jpeg-01234567.png'',
             mimeType = ''image/png'' \<rparr>)]"
  by (simp add: store_eval ex_env_def)

lemma bare_imageMap:
  "buildImageMap (ocr_images bare_page)
   = [(''img-0.jpeg'', ''/placeholder.svg?height=200&width=300'')]"
  by (simp add: bare_page_def buildImageMap_def assign_string_def dataUrlOf_def str_or_def placeholderPath_def)

lemma bare_page_processed:
  "processPage ex_env ''S'' 0 bare_page
   = Inr \<lparr> index = 0,
           markdown = ''![img-0.jpeg](/assets/ocr-images/S/img-0.jpeg-01234567.png)'',
           rawMarkdown = ''![img-0.jpeg](img-0.jpeg)'',
           images =
             [\<lparr> ref_id = ''img-0.jpeg'',
                url = ''/assets/ocr-images/S/img-0.jpeg-01234567.png'',
                coordinates = \<lparr> coord_x = 50 / 612, coord_y = 300 / 792,
                                coord_width = 500 / 612, coord_height = 200 / 792 \<rparr>,
                originalCoordinates = \<lparr> top_left_x = 50, top_left_y = 300,
                                        bottom_right_x = 550, bottom_right_y = 500 \<rparr> \<rparr>],
           dimensions = \<lparr> dpi = 72, height = 792, width = 612 \<rparr> \<rparr>"
  apply (simp only: processPage_def Let_def bare_imageMap bare_store)
  apply (simp add: bare_page_def page_eval split_str_def str_or_def
      object_entries_def object_get_def array_index_def is_digit_def Let_def)
  done

text \<open>
  Claim C4, on the page whose image came without payload, in the local environment where
  every write succeeds.  The image has its entry in the image map (the placeholder path),
  the page does not fail, and the image is in the returned list; but the store has written
  the placeholder path to a file as if it were image data, and the returned URL, like the
  link in the markdown, is the public path of that file and not the placeholder path.
\<close>

theorem placeholder_is_persisted:
  "object_get (buildImageMap (ocr_images bare_page)) ''img-0.jpeg''
     = Some ''/placeholder.svg?height=200&width=300''
   \<and> \<not> isl (processOcrResponse ex_env bare_response ''S'')
   \<and> map ref_id (all_images (projr (processOcrResponse ex_env bare_response ''S'')))
       = [''img-0.jpeg'']
   \<and> map url (all_images (projr (processOcrResponse ex_env bare_response ''S'')))
       = [''/assets/ocr-images/S/img-0.jpeg-01234567.png'']
   \<and> map markdown (pages (projr (processOcrResponse ex_env bare_response ''S'')))
       = [''![img-0.jpeg](/assets/ocr-images/S/img-0.jpeg-01234567.png)'']
   \<and> placeholderPath = ''/placeholder.svg?height=200&width=300''"
  by (simp add: bare_imageMap object_get_def processOcrResponse_def processPages_def
        bare_response_def bare_page_processed placeholderPath_def)

section \<open>The fallback to the mock response\<close>

lemma createMockResponse_cases:
  "fst (createMockResponse env fileName sid) =
     (case fetchBase64 env pmiGraphUrl of
        Inl error \<Rightarrow> Inl error
      | Inr base64Image \<Rightarrow>
          (case storeImagesFromMap env MockCall
                  [(''pmi_graph'', ''data:image/jpeg;base64,'' @ base64Image)] (Some sid) of
             Inl error \<Rightarrow> Inl error
           | Inr savedImages \<Rightarrow> Inr (mockDocument fileName sid savedImages)))"
  by (simp add: createMockResponse_def Let_def split: sum.splits)

lemma createMockResponse_returns:
  assumes "fetchBase64 env pmiGraphUrl = Inr base64Image"
    and "bookkeeping_ok env MockCall (Some sid)"
  shows "\<exists>savedImages.
           fst (createMockResponse env fileName sid) = Inr (mockDocument fileName sid savedImages)"
  using storeImagesFromMap_returns[OF assms(2),
      of "[(''pmi_graph'', ''data:image/jpeg;base64,'' @ base64Image)]"] assms(1)
  by (auto simp: createMockResponse_cases)

lemma respondWithMock_response:
  "fst (respondWithMock env pdfFile sid) =
     (case fst (createMockResponse env (form_name pdfFile) sid) of
        Inr mockResponse \<Rightarrow> json_ok mockResponse
      | Inl error \<Rightarrow> failure error)"
  by (simp add: respondWithMock_def split: prod.splits sum.splits)

text \<open>The mock document carries the canned markdown, with the sample image embedded once.\<close>

lemma mockDocument_content:
  "doc_text (mockDocument fileName sid savedImages) = sampleMarkdown fileName
   \<and> sublist (''![pmi_graph]('' @ pmiGraphUrl @ '')'') (sampleMarkdown fileName)
   \<and> map ref_id (all_images (mockDocument fileName sid savedImages)) = [''pmi_graph'']
   \<and> length (pages (mockDocument fileName sid savedImages)) = 1"
proof -
  have "sampleMarkdown fileName
        = (''# PMI Economic Report: '' @ fileName @ sampleIntro)
          @ (''![pmi_graph]('' @ pmiGraphUrl @ '')'') @ sampleOutro"
    by (simp add: sampleMarkdown_def)
  then have "sublist (''![pmi_graph]('' @ pmiGraphUrl @ '')'') (sampleMarkdown fileName)"
    by (simp only: sublist_appendI)
  then show ?thesis by (simp add: mockDocument_def mockImage_def Let_def)
qed

text \<open>
  Claim C3, amended.  When something throws inside the inner \<^verbatim>\<open>try\<close> of a request that
  carries a PDF file and is not the sample (the upload, the signed URL, the OCR call, the
  normalization), the handler records the error with \<^verbatim>\<open>console.error\<close> and answers with
  what the construction of the mock response yields: the mock document, with status 200,
  when the sample image can be fetched and the bookkeeping of the store goes through; and
  status 500 with the message of the error that the construction of the mock threw, when
  the sample image cannot be fetched.  The error of the vendor is in neither answer.
\<close>

theorem api_error_falls_back:
  assumes "form_get formData ''pdf'' = Some (FormFile f)"
    and "form_get formData ''isSample'' \<noteq> Some (FormString ''true'')"
    and "fst (apiOperations env (FormFile f) (requestUuid env)) = Inl apiError"
  shows "fst (POST env (Inr formData))
           = (case fst (createMockResponse env (file_name f) (requestUuid env)) of
                Inr mockResponse \<Rightarrow> json_ok mockResponse
              | Inl error \<Rightarrow> failure error)
       \<and> ConsoleError ''Error in API operations:'' apiError \<in> set (snd (POST env (Inr formData)))
       \<and> (\<forall>base64Image.
             fetchBase64 env pmiGraphUrl = Inr base64Image
             \<and> bookkeeping_ok env MockCall (Some (requestUuid env))
             \<longrightarrow> (\<exists>savedImages.
                    fst (POST env (Inr formData))
                    = \<lparr> status = 200,
                        body = DocumentBody
                                 (mockDocument (file_name f) (requestUuid env) savedImages) \<rparr>))
       \<and> (\<forall>error. fetchBase64 env pmiGraphUrl = Inl error
             \<longrightarrow> fst (POST env (Inr formData))
                 = \<lparr> status = 500,
                     body = FailureBody ''Failed to process PDF'' (message error)
                              (details error) \<rparr>)"
proof -
  obtain evs where api: "apiOperations env (FormFile f) (requestUuid env) = (Inl apiError, evs)"
    using assms(3) by (cases "apiOperations env (FormFile f) (requestUuid env)") auto
  obtain resp evs' where mock: "respondWithMock env (FormFile f) (requestUuid env) = (resp, evs')"
    by (cases "respondWithMock env (FormFile f) (requestUuid env)") auto
  have post: "POST env (Inr formData)
              = (resp, evs @ [ConsoleError ''Error in API operations:'' apiError] @ evs')"
    using assms(1,2) api mock by (simp add: POST_def form_falsy_def Let_def)
  have resp: "resp = (case fst (createMockResponse env (file_name f) (requestUuid env)) of
                Inr mockResponse \<Rightarrow> json_ok mockResponse
              | Inl error \<Rightarrow> failure error)"
    using respondWithMock_response[of env "FormFile f" "requestUuid env"] mock
    by (simp add: form_name_def)
  have ok: "\<exists>savedImages. resp = \<lparr> status = 200,
                        body = DocumentBody
                                 (mockDocument (file_name f) (requestUuid env) savedImages) \<rparr>"
    if "fetchBase64 env pmiGraphUrl = Inr base64Image"
      and "bookkeeping_ok env MockCall (Some (requestUuid env))" for base64Image
    using createMockResponse_returns[OF that, of "file_name f"] resp
    by (auto simp: json_ok_def)
  have ko: "resp = \<lparr> status = 500,
                     body = FailureBody ''Failed to process PDF'' (message error)
                              (details error) \<rparr>"
    if "fetchBase64 env pmiGraphUrl = Inl error" for error
    using that resp by (simp add: createMockResponse_cases failure_def)
  show ?thesis using post resp ok ko by auto
qed

lemma upload_error_is_api_error:
  assumes "newMistral env = None" and "arrayBuffer env f = None"
    and "filesUpload env \<lparr> file_name = file_name f, file_type = ''application/pdf'',
                            file_bytes = file_bytes f \<rparr> = Inl error"
  shows "fst (apiOperations env (FormFile f) sid) = Inl error"
  using assms by (simp add: apiOperations_def)

lemma ocr_error_is_api_error:
  assumes "newMistral env = None" and "arrayBuffer env f = None"
    and "filesUpload env \<lparr> file_name = file_name f, file_type = ''application/pdf'',
                            file_bytes = file_bytes f \<rparr> = Inr fileId"
    and "filesGetSignedUrl env fileId = Inr signedUrl"
    and "ocrProcess env \<lparr> req_model = ''mistral-ocr-latest'', documentUrl = signedUrl,
                           documentName = file_name f, includeImageBase64 = True \<rparr> = Inl error"
  shows "fst (apiOperations env (FormFile f) sid) = Inl error"
  using assms by (simp add: apiOperations_def)

lemma ex_form_pdf:
  "form_get ex_form ''pdf''
     = Some (FormFile \<lparr> file_name = ''report.pdf'', file_type = ''application/pdf'',
                         file_bytes = ''%PDF-1.7'' \<rparr>)"
  "form_get ex_form ''isSample'' \<noteq> Some (FormString ''true'')"
  by (simp_all add: form_get_def ex_form_def)

theorem api_error_falls_back_witness:
  "\<exists>savedImages.
     fst (POST api_down_env (Inr ex_form))
       = \<lparr> status = 200, body = DocumentBody (mockDocument ''report.pdf'' ''S'' savedImages) \<rparr>
     \<and> ConsoleError ''Error in API operations:'' (JsError ''Service unavailable'' ''{}'')
         \<in> set (snd (POST api_down_env (Inr ex_form)))"
proof -
  have api: "fst (apiOperations api_down_env
                (FormFile \<lparr> file_name = ''report.pdf'', file_type = ''application/pdf'',
                            file_bytes = ''%PDF-1.7'' \<rparr>) (requestUuid api_down_env))
             = Inl (JsError ''Service unavailable'' ''{}'')"
    by (rule upload_error_is_api_error) (simp_all add: api_down_env_def ex_env_def)
  have fetch: "fetchBase64 api_down_env pmiGraphUrl = Inr ''AAAA''"
    by (simp add: api_down_env_def ex_env_def)
  have b: "bookkeeping_ok api_down_env MockCall (Some (requestUuid api_down_env))"
    by (simp add: bookkeeping_ok_def api_down_env_def ex_env_def ensureDirectoryExists_def)
  note t = api_error_falls_back[OF ex_form_pdf api]
  from t fetch b obtain savedImages where
    "fst (POST api_down_env (Inr ex_form))
       = \<lparr> status = 200,
           body = DocumentBody
                    (mockDocument
                       (file_name \<lparr> file_name = ''report.pdf'', file_type = ''application/pdf'',
                                     file_bytes = ''%PDF-1.7'' \<rparr>)
                       (requestUuid api_down_env) savedImages) \<rparr>"
    by blast
  moreover have "requestUuid api_down_env = ''S''" by (simp add: api_down_env_def ex_env_def)
  ultimately show ?thesis using t by auto
qed

text \<open>
  The claim as the specification words it fails when the vendor rejects the upload and the
  sample image cannot be fetched either: the answer is an error payload with status 500.
\<close>

theorem api_error_falls_back_counterexample:
  "filesUpload offline_env \<lparr> file_name = ''report.pdf'', file_type = ''application/pdf'',
                             file_bytes = ''%PDF-1.7'' \<rparr>
     = Inl (JsError ''Service unavailable'' ''{}'')
   \<and> fst (POST offline_env (Inr ex_form))
       = \<lparr> status = 500, body = FailureBody ''Failed to process PDF'' ''fetch failed'' ''{}'' \<rparr>"
  by (simp add: POST_def ex_form_pdf form_falsy_def apiOperations_def respondWithMock_def
        createMockResponse_def failure_def offline_env_def api_down_env_def ex_env_def Let_def)

end
